theory Spec2Isabelle
  imports Main "HOL-Library.Word" "HOL-Library.Sublist"
begin

unbundle bit_operations_syntax

section \<open>Go values: errors, panics, results\<close>

text \<open>
  A Go \<open>error\<close> value is modelled by its message. A function that can panic returns
  a \<open>go\<close> value: either it returns normally (\<open>Ret\<close>) or the goroutine panics.
\<close>

datatype error = Error string

datatype panic =
    IndexOutOfRange nat nat  \<comment> \<open>runtime error: index out of range [i] with length n\<close>
  | PanicErr error           \<comment> \<open>\<open>panic(err)\<close>\<close>
  | NilDereference           \<comment> \<open>runtime error: invalid memory address or nil pointer dereference\<close>

datatype 'a go = Ret 'a | Panic panic

section \<open>The string functions of the Go library used by the resolver\<close>

text \<open>
  \<open>strings.Split(s, sep)\<close>; every call of the resolver passes a separator of one
  byte, so the separator is a \<open>char\<close>. The result always has one element more
  than there are separators in \<open>s\<close>.
\<close>

fun Split :: "string \<Rightarrow> char \<Rightarrow> string list" where
  "Split [] sep = [[]]"
| "Split (c # cs) sep =
     (if c = sep then [] # Split cs sep
      else (case Split cs sep of
              [] \<Rightarrow> [[c]]
            | s # ss \<Rightarrow> (c # s) # ss))"

text \<open>\<open>strings.Contains(s, substr)\<close>: \<open>substr\<close> occurs in \<open>s\<close> at some position.\<close>

fun Contains :: "string \<Rightarrow> string \<Rightarrow> bool" where
  "Contains [] substr = (substr = [])"
| "Contains (c # cs) substr = (prefix substr (c # cs) \<or> Contains cs substr)"

text \<open>
  \<open>strings.Fields(s)\<close>: the maximal runs of bytes between white space, where white
  space is a rune with \<open>unicode.IsSpace\<close>. \<open>isSpace\<close> gives the length in bytes of
  the white space rune that starts a string in UTF-8 (0 when none does): the six
  ASCII characters, U+0085 and U+00A0 (two bytes), and U+1680, U+2000 to U+200A,
  U+2028, U+2029, U+202F, U+205F and U+3000 (three bytes). A byte that starts no
  such rune belongs to a field, also when it is not valid UTF-8.
\<close>

definition isSpace :: "string \<Rightarrow> nat" where
  "isSpace s =
     (case s of
        [] \<Rightarrow> 0
      | c # r \<Rightarrow>
          if c \<in> set [CHR 0x09, CHR 0x0A, CHR 0x0B, CHR 0x0C, CHR 0x0D, CHR 0x20] then 1
          else if c = CHR 0xC2 then
            (if take 1 r = [CHR 0x85] \<or> take 1 r = [CHR 0xA0] then 2 else 0)
          else if c = CHR 0xE1 then
            (if take 2 r = [CHR 0x9A, CHR 0x80] then 3 else 0)
          else if c = CHR 0xE2 then
            (if take 1 r = [CHR 0x80] \<and>
                take 1 (drop 1 r) \<in> set [[CHR 0x80], [CHR 0x81], [CHR 0x82], [CHR 0x83],
                  [CHR 0x84], [CHR 0x85], [CHR 0x86], [CHR 0x87], [CHR 0x88], [CHR 0x89],
                  [CHR 0x8A], [CHR 0xA8], [CHR 0xA9], [CHR 0xAF]]
             then 3
             else if take 2 r = [CHR 0x81, CHR 0x9F] then 3 else 0)
          else if c = CHR 0xE3 then
            (if take 2 r = [CHR 0x80, CHR 0x80] then 3 else 0)
          else 0)"

text \<open>
  The scan of \<open>Fields\<close>: \<open>skip\<close> counts the bytes of a white space rune still to
  pass, \<open>field\<close> is the field read so far.
\<close>

fun FieldsFrom :: "nat \<Rightarrow> string \<Rightarrow> string \<Rightarrow> string list" where
  "FieldsFrom skip field [] = (if field = [] then [] else [field])"
| "FieldsFrom skip field (c # cs) =
     (if skip > 0 then FieldsFrom (skip - 1) field cs
      else if isSpace (c # cs) > 0
           then (if field = [] then [] else [field]) @ FieldsFrom (isSpace (c # cs) - 1) [] cs
           else FieldsFrom 0 (field @ [c]) cs)"

definition Fields :: "string \<Rightarrow> string list" where
  "Fields s = FieldsFrom 0 [] s"

text \<open>The verb \<open>%d\<close> of \<open>fmt.Sprintf\<close> on an \<open>int\<close>: decimal, with a minus sign.\<close>

definition digit_char :: "nat \<Rightarrow> char" where
  "digit_char d = ''0123456789'' ! d"

function decimal :: "nat \<Rightarrow> string" where
  "decimal n = (if n < 10 then [digit_char n] else decimal (n div 10) @ [digit_char (n mod 10)])"
  by pat_completeness auto
termination
  by (relation "measure id") auto

declare decimal.simps [simp del]

definition Sprintf_d :: "int \<Rightarrow> string" where
  "Sprintf_d i = (if i < 0 then CHR ''-'' # decimal (nat (- i)) else decimal (nat i))"

text \<open>
  \<open>strconv.Atoi\<close> on a 64-bit platform (the resolver is built for darwin only): an
  optional sign and at least one decimal digit; a syntax error gives 0, a value out
  of the range of \<open>int\<close> gives the nearest bound; both come with an error.
\<close>

definition is_digit :: "char \<Rightarrow> bool" where
  "is_digit c = (c \<in> set ''0123456789'')"

fun digits_value :: "int \<Rightarrow> string \<Rightarrow> int" where
  "digits_value acc [] = acc"
| "digits_value acc (c # cs) = digits_value (acc * 10 + (of_char c - 48)) cs"

definition unsigned_part :: "string \<Rightarrow> bool \<times> string" where
  "unsigned_part s =
     (case s of
        [] \<Rightarrow> (False, [])
      | c # cs \<Rightarrow> if c = CHR ''-'' then (True, cs)
                  else if c = CHR ''+'' then (False, cs)
                  else (False, s))"

definition Atoi :: "string \<Rightarrow> int \<times> error option" where
  "Atoi s =
     (let (neg, ds) = unsigned_part s in
      if ds = [] \<or> \<not> list_all is_digit ds then (0, Some (Error ''invalid syntax''))
      else
        let un = digits_value 0 ds in
        if \<not> neg \<and> un \<ge> 2 ^ 63 then (2 ^ 63 - 1, Some (Error ''value out of range''))
        else if neg \<and> un > 2 ^ 63 then (- (2 ^ 63), Some (Error ''value out of range''))
        else (if neg then - un else un, None))"

section \<open>The state-table resolver (darwin)\<close>

text \<open>
  \<open>convertPortToInt\<close>: the value of \<open>strconv.Atoi\<close>; an error is printed on the
  standard output and the value (0 on a syntax error) is returned all the same.
\<close>

definition convertPortToInt :: "string \<Rightarrow> int" where
  "convertPortToInt port = fst (Atoi port)"

definition could_not_resolve :: error where
  "could_not_resolve = Error ''could not resolve original destination''"

text \<open>
  The loop of \<open>lookup\<close> over the lines of the table. The IPv4 branch checks that the
  5th field splits in two before it indexes; the IPv6 branch indexes \<open>portPart[1]\<close>
  without a check, which panics when the field has no bracket.
\<close>

fun lookup_lines :: "string \<Rightarrow> string \<Rightarrow> string list \<Rightarrow> (string \<times> int \<times> error option) go" where
  "lookup_lines specv4 specv6 [] = Ret ('''', 0, Some could_not_resolve)"
| "lookup_lines specv4 specv6 (line # lines) =
     (if Contains line ''ESTABLISHED:ESTABLISHED'' then
        if Contains line specv4 then
          let fields = Fields line in
          if length fields > 4 then
            let addressPort = Split (fields ! 4) CHR '':'' in
            if length addressPort = 2
            then Ret (addressPort ! 0, convertPortToInt (addressPort ! 1), None)
            else lookup_lines specv4 specv6 lines
          else lookup_lines specv4 specv6 lines
        else if Contains line specv6 then
          let fields = Fields line in
          if length fields > 4 then
            let portPart = Split (fields ! 4) CHR ''['' in
            if length portPart \<le> 1 then Panic (IndexOutOfRange 1 (length portPart))
            else
              let portNumber = Split (portPart ! 1) CHR '']'' ! 0 in
              Ret (portPart ! 0, convertPortToInt portNumber, None)
          else lookup_lines specv4 specv6 lines
        else lookup_lines specv4 specv6 lines
      else lookup_lines specv4 specv6 lines)"

definition specv4 :: "string \<Rightarrow> int \<Rightarrow> string" where
  "specv4 address port = address @ '':'' @ Sprintf_d port"

definition specv6 :: "string \<Rightarrow> int \<Rightarrow> string" where
  "specv6 address port = address @ ''['' @ Sprintf_d port @ '']''"

definition lookup :: "string \<Rightarrow> int \<Rightarrow> string \<Rightarrow> (string \<times> int \<times> error option) go" where
  "lookup address port s =
     lookup_lines (specv4 address port) (specv6 address port) (Split s CHR 0x0A)"

text \<open>
  \<open>PfctlLookup\<close>: the first argument is what running
  \<open>sudo -n /sbin/pfctl -s state\<close> gave, its output or its error. On an error the
  function panics with it.
\<close>

definition PfctlLookup :: "error + string \<Rightarrow> string \<Rightarrow> int \<Rightarrow> (string \<times> int \<times> error option) go" where
  "PfctlLookup cmd address port =
     (case cmd of
        Inl err \<Rightarrow> Panic (PanicErr err)
      | Inr out \<Rightarrow> lookup address port out)"

text \<open>
  \<open>LocalToRemote\<close>: the key is cut from the text of the connection's remote address
  at the colons; \<open>sep[1]\<close> panics on a text without a colon, and the error of
  \<open>Atoi\<close> is dropped.
\<close>

definition LocalToRemote :: "error + string \<Rightarrow> string \<Rightarrow> (string \<times> int \<times> error option) go" where
  "LocalToRemote cmd remoteAddr =
     (let sep = Split remoteAddr CHR '':'' in
      if length sep \<le> 1 then Panic (IndexOutOfRange 1 (length sep))
      else
        let port = fst (Atoi (sep ! 1)) in
        (case PfctlLookup cmd (sep ! 0) port of
           Panic p \<Rightarrow> Panic p
         | Ret (remoteAddr', remotePort, err) \<Rightarrow>
             (case err of
                Some e \<Rightarrow> Ret ('''', 0, Some e)
              | None \<Rightarrow> Ret (remoteAddr', remotePort, err))))"

section \<open>The format of the state table\<close>

text \<open>
  \<open>net.JoinHostPort\<close> of the Go library: a host with a colon is put in brackets.
  The text of a TCP address (\<open>TCPAddr.String\<close>) is made with it.
\<close>

definition JoinHostPort :: "string \<Rightarrow> string \<Rightarrow> string" where
  "JoinHostPort host port =
     (if CHR '':'' \<in> set host then ''['' @ host @ '']:'' @ port else host @ '':'' @ port)"

text \<open>
  The two shapes of a line of the state table, as the comments of \<open>lookup\<close> give
  them. A line of the table is one of them, or empty (the text ends with a newline).
\<close>

definition state_line_v4 :: "string \<Rightarrow> nat \<Rightarrow> string \<Rightarrow> nat \<Rightarrow> string" where
  "state_line_v4 src sport dst dport =
     ''ALL tcp '' @ src @ '':'' @ decimal sport @ '' -> '' @ dst @ '':'' @ decimal dport
       @ ''       ESTABLISHED:ESTABLISHED''"

definition state_line_v6 :: "string \<Rightarrow> nat \<Rightarrow> string \<Rightarrow> nat \<Rightarrow> string" where
  "state_line_v6 src sport dst dport =
     ''ALL tcp '' @ src @ ''['' @ decimal sport @ ''] -> '' @ dst @ ''['' @ decimal dport
       @ '']  ESTABLISHED:ESTABLISHED''"

definition state_table_line :: "string \<Rightarrow> bool" where
  "state_table_line l =
     (l = [] \<or>
      (\<exists>src sport dst dport. CHR ''['' \<notin> set src \<and> CHR ''['' \<notin> set dst \<and>
         (l = state_line_v4 src sport dst dport \<or> l = state_line_v6 src sport dst dport)))"

text \<open>
  In such a line an opening bracket always starts a port: decimal digits, then the
  closing bracket.
\<close>

definition port_then_close :: "string \<Rightarrow> bool" where
  "port_then_close cs = (case dropWhile is_digit cs of [] \<Rightarrow> False | c # _ \<Rightarrow> c = CHR '']'')"

fun brackets_ok :: "string \<Rightarrow> bool" where
  "brackets_ok [] = True"
| "brackets_ok (c # cs) = ((c = CHR ''['' \<longrightarrow> port_then_close cs) \<and> brackets_ok cs)"


section \<open>Host and port\<close>

text \<open>
  \<open>net.SplitHostPort\<close> of the Go library: the port starts after the last colon; a
  host in brackets ends at the first closing bracket, which must come just before
  that colon; a host without brackets has no colon; no other bracket is allowed.
\<close>

fun IndexByte :: "string \<Rightarrow> char \<Rightarrow> nat option" where
  "IndexByte [] c = None"
| "IndexByte (x # xs) c = (if x = c then Some 0 else map_option Suc (IndexByte xs c))"

definition LastIndexByte :: "string \<Rightarrow> char \<Rightarrow> nat option" where
  "LastIndexByte s c =
     (case IndexByte (rev s) c of None \<Rightarrow> None | Some k \<Rightarrow> Some (length s - 1 - k))"

definition AddrError :: "string \<Rightarrow> string \<Rightarrow> error" where
  "AddrError why addr = Error (''address '' @ addr @ '': '' @ why)"

definition split_tail :: "string \<Rightarrow> nat \<Rightarrow> nat \<Rightarrow> nat \<Rightarrow> string \<Rightarrow> error + (string \<times> string)" where
  "split_tail hostport i j k host =
     (if CHR ''['' \<in> set (drop j hostport) then Inl (AddrError ''unexpected '[' in address'' hostport)
      else if CHR '']'' \<in> set (drop k hostport) then Inl (AddrError ''unexpected ']' in address'' hostport)
      else Inr (host, drop (i + 1) hostport))"

definition SplitHostPort :: "string \<Rightarrow> error + (string \<times> string)" where
  "SplitHostPort hostport =
     (case LastIndexByte hostport CHR '':'' of
        None \<Rightarrow> Inl (AddrError ''missing port in address'' hostport)
      | Some i \<Rightarrow>
          if hd hostport = CHR ''['' then
            (case IndexByte hostport CHR '']'' of
               None \<Rightarrow> Inl (AddrError ''missing ']' in address'' hostport)
             | Some end \<Rightarrow>
                 if end + 1 = length hostport
                 then Inl (AddrError ''missing port in address'' hostport)
                 else if end + 1 = i
                 then split_tail hostport i 1 (end + 1) (take (end - 1) (drop 1 hostport))
                 else if hostport ! (end + 1) = CHR '':''
                 then Inl (AddrError ''too many colons in address'' hostport)
                 else Inl (AddrError ''missing port in address'' hostport))
          else
            if CHR '':'' \<in> set (take i hostport)
            then Inl (AddrError ''too many colons in address'' hostport)
            else split_tail hostport i 0 0 (take i hostport))"

section \<open>Streams\<close>

type_synonym byte = "8 word"

text \<open>
  The readers the handler builds. \<open>Conn bs e\<close> is the connection: the bytes the
  client still sends, and the error that ends the stream (\<open>io.EOF\<close> when the client
  closes). \<open>MultiReader b r\<close> is \<open>io.MultiReader\<close> of a byte source that holds
  \<open>b\<close> (a \<open>bytes.Reader\<close> or a \<open>bytes.Buffer\<close>) and the reader \<open>r\<close>.
\<close>

datatype reader = Conn "byte list" error | MultiReader "byte list" reader

definition io_EOF :: error where
  "io_EOF = Error ''EOF''"

definition io_ErrUnexpectedEOF :: error where
  "io_ErrUnexpectedEOF = Error ''unexpected EOF''"

text \<open>What a consumer that reads the reader to its end observes, and how it ends.\<close>

fun contents :: "reader \<Rightarrow> byte list" where
  "contents (Conn bs e) = bs"
| "contents (MultiReader b r) = b @ contents r"

fun ending :: "reader \<Rightarrow> error" where
  "ending (Conn bs e) = e"
| "ending (MultiReader b r) = ending r"

text \<open>The reader after \<open>n\<close> bytes were read from it (fewer when it ends before).\<close>

fun advance :: "nat \<Rightarrow> reader \<Rightarrow> reader" where
  "advance n (Conn bs e) = Conn (drop n bs) e"
| "advance n (MultiReader b r) = MultiReader (drop n b) (advance (n - length b) r)"

text \<open>
  \<open>io.ReadFull(r, buf)\<close> with \<open>len(buf) = n\<close>: the bytes read, the error, and the
  reader afterwards. The error is nil when \<open>n\<close> bytes came, \<open>io.EOF\<close> when none
  came before the end of the stream, \<open>io.ErrUnexpectedEOF\<close> when some came.
\<close>

definition ReadFull :: "reader \<Rightarrow> nat \<Rightarrow> byte list \<times> error option \<times> reader" where
  "ReadFull r n =
     (let got = take n (contents r) in
      (got,
       if length got = n then None
       else if ending r = io_EOF
            then (if got = [] then Some io_EOF else Some io_ErrUnexpectedEOF)
            else Some (ending r),
       advance n r))"

section \<open>The protocol sniffer\<close>

text \<open>
  Constants of the packages \<open>tls-dissector\<close> and \<open>crypto/tls\<close>: the length of a TLS
  record header, the record type of a handshake, the version number of TLS 1.0.
\<close>

definition RecordHeaderLen :: nat where
  "RecordHeaderLen = 5"

definition Handshake :: byte where
  "Handshake = 0x16"

definition VersionTLS10 :: "16 word" where
  "VersionTLS10 = 0x0301"

text \<open>\<open>binary.BigEndian.Uint16\<close> of the two bytes.\<close>

definition BigEndian_Uint16 :: "byte \<Rightarrow> byte \<Rightarrow> 16 word" where
  "BigEndian_Uint16 b0 b1 = (ucast b1) OR (push_bit 8 (ucast b0))"

text \<open>
  The TLS probe of \<open>Handle\<close>. \<open>hdr\<close> is an array of \<open>RecordHeaderLen\<close> zero bytes
  that \<open>io.ReadFull\<close> fills from the front. The count of bytes read is dropped, and
  the whole array is put back in front of the stream, also when fewer bytes came.
\<close>

definition probeTLS :: "reader \<Rightarrow> bool \<times> reader" where
  "probeTLS rw =
     (let (got, err, rw') = ReadFull rw RecordHeaderLen;
          hdr = got @ replicate (RecordHeaderLen - length got) 0;
          rw'' = MultiReader hdr rw'
      in (err = None \<and> hdr ! 0 = Handshake \<and> BigEndian_Uint16 (hdr ! 1) (hdr ! 2) = VersionTLS10,
          rw''))"

text \<open>
  The HTTP probe of \<open>Handle\<close>. \<open>http.ReadRequest\<close> of the Go library is a parameter:
  from the bytes of the stream it gives the number of bytes its buffered reader took
  from the stream, and the request or an error. The tee copies every byte taken into
  \<open>buf\<close>, which is put back in front of the stream.
\<close>

definition probeHTTP ::
  "(byte list \<Rightarrow> nat \<times> (error + 'req)) \<Rightarrow> reader \<Rightarrow> (error + 'req) \<times> reader" where
  "probeHTTP ReadRequest rw =
     (let (n, res) = ReadRequest (contents rw);
          buf = take n (contents rw)
      in (res, MultiReader buf (advance n rw)))"

text \<open>
  The outcome of the two probes: the handler that \<open>Handle\<close> passes the stream to.
\<close>

datatype sniffed = is_TLS: TLS reader | is_HTTP: HTTP reader | is_Opaque: Opaque reader

fun stream :: "sniffed \<Rightarrow> reader" where
  "stream (TLS rw) = rw"
| "stream (HTTP rw) = rw"
| "stream (Opaque rw) = rw"

definition sniff :: "(byte list \<Rightarrow> nat \<times> (error + 'req)) \<Rightarrow> reader \<Rightarrow> sniffed" where
  "sniff ReadRequest rw =
     (let (tls, rw') = probeTLS rw in
      if tls then TLS rw'
      else
        let (res, rw'') = probeHTTP ReadRequest rw' in
        (case res of Inr req \<Rightarrow> HTTP rw'' | Inl err \<Rightarrow> Opaque rw''))"

section \<open>The handler and its collaborators\<close>

text \<open>A \<open>net.Addr\<close>: the name of the network and the text of the address.\<close>

record addr =
  Network :: string
  String :: string

text \<open>
  The inbound connection: its two addresses, the bytes the client sends, and the
  error that ends its stream (\<open>io.EOF\<close> when the client closes).
\<close>

record conn =
  RemoteAddr :: addr
  LocalAddr :: addr
  incoming :: "byte list"
  closing :: error

text \<open>
  The extensions of a decoded ClientHello: the server name extension with its name,
  or an extension of another type (with its type number).
\<close>

datatype extension = ServerNameExtension string | OtherExtension nat

text \<open>
  The functions of other packages that the handler calls, as parameters: the HTTP
  functions of \<open>net/http\<close> (reading a request, its \<open>Host\<close>, writing it, reading and
  writing a response, the dumps of \<open>httputil\<close>), the TLS functions of
  \<open>tls-dissector\<close> (\<open>ReadRecord\<close> gives the number of bytes it read and the
  payload of the record, \<open>Decode\<close> the extensions of the ClientHello), and the text
  of the \<open>net.TCPAddr\<close> made of \<open>net.ParseIP(host)\<close> and a port.
\<close>

record ('req, 'resp) library =
  ReadRequest :: "byte list \<Rightarrow> nat \<times> (error + 'req)"
  Host :: "'req \<Rightarrow> string"
  DumpRequest :: "'req \<Rightarrow> string"
  Request_Write :: "'req \<Rightarrow> byte list \<times> error option"
  ReadResponse :: "byte list \<Rightarrow> 'req \<Rightarrow> error + 'resp"
  DumpResponse :: "'resp \<Rightarrow> string"
  Response_Write :: "'resp \<Rightarrow> byte list \<times> error option"
  ReadRecord :: "byte list \<Rightarrow> nat \<times> (error + byte list)"
  Decode :: "byte list \<Rightarrow> error + extension list"
  TCPAddr_String :: "string \<Rightarrow> int \<Rightarrow> string"

text \<open>
  The handler: its two settings, the bypass policy and the rate limiter (each may be
  nil; a limiter registry gives a limiter for a host, or none, and the limiter's
  \<open>Allow(1)\<close> is its answer), the router's \<open>Dial\<close> (an upstream connection is the
  bytes the upstream sends), and whether the logger has the trace level enabled.
\<close>

record redirectHandler =
  tproxy :: bool
  sniffing :: bool
  Bypass :: "(string \<Rightarrow> bool) option"
  RateLimiter :: "(string \<Rightarrow> bool option) option"
  Dial :: "string \<Rightarrow> string \<Rightarrow> error + byte list"
  TraceLevel :: bool

text \<open>
  What the handler does to the outside, in order: log entries, the question to the
  bypass policy with its answer, the dial, the bytes written to the upstream and to
  the client, the relay (with the bytes the client side and the upstream side give
  it), and the closing of the response body, the upstream connection, the connection.
\<close>

datatype event =
    LogInfo string
  | LogError error
  | LogDebug string
  | LogTrace string
  | BypassContains string bool
  | RouterDial string string
  | UpstreamWrite "byte list"
  | ClientWrite "byte list"
  | Transport "byte list" "byte list"
  | ResponseBodyClose
  | UpstreamClose
  | ConnClose

text \<open>\<open>Handle\<close> returns an error or nil, or the goroutine panics.\<close>

datatype outcome = Returned "error option" | Panicked panic

definition checkRateLimit :: "redirectHandler \<Rightarrow> addr \<Rightarrow> bool" where
  "checkRateLimit h a =
     (case RateLimiter h of
        None \<Rightarrow> True
      | Some Limiter \<Rightarrow>
          let host = (case SplitHostPort (String a) of Inl err \<Rightarrow> '''' | Inr (host, port) \<Rightarrow> host) in
          (case Limiter host of
             Some allow \<Rightarrow> allow
           | None \<Rightarrow> True))"

text \<open>
  \<open>getOriginalDstAddr\<close> (darwin). The second argument is what the state-query
  command gives when it is run.
\<close>

definition getOriginalDstAddr ::
  "('req, 'resp) library \<Rightarrow> error + string \<Rightarrow> conn \<Rightarrow> (addr option \<times> error option) go" where
  "getOriginalDstAddr lib cmd c =
     (case LocalToRemote cmd (String (RemoteAddr c)) of
        Panic p \<Rightarrow> Panic p
      | Ret (host, port, err) \<Rightarrow>
          (case err of
             Some e \<Rightarrow> Ret (None, Some e)
           | None \<Rightarrow> Ret (Some \<lparr>Network = ''tcp'', String = TCPAddr_String lib host port\<rparr>, None)))"

text \<open>
  The test \<open>h.options.Bypass != nil && h.options.Bypass.Contains(s)\<close>: the question
  asked, if a policy is set, and the result of the test.
\<close>

definition bypass :: "redirectHandler \<Rightarrow> string \<Rightarrow> event list \<times> bool" where
  "bypass h s =
     (case Bypass h of
        None \<Rightarrow> ([], False)
      | Some policy \<Rightarrow> ([BypassContains s (policy s)], policy s))"

text \<open>
  \<open>handleHTTP\<close>. The deferred calls run in reverse order: the response body is
  closed, the closing debug line is logged, the upstream connection is closed.
\<close>

definition handleHTTP ::
  "redirectHandler \<Rightarrow> ('req, 'resp) library \<Rightarrow> reader \<Rightarrow> addr \<Rightarrow> event list \<times> error option" where
  "handleHTTP h lib rw raddr =
     (case snd (ReadRequest lib (contents rw)) of
        Inl err \<Rightarrow> ([], Some err)
      | Inr req \<Rightarrow>
          let dump = (if TraceLevel h then [LogTrace (DumpRequest lib req)] else []);
              host = (case SplitHostPort (Host lib req) of
                        Inl err \<Rightarrow> JoinHostPort (Host lib req) ''80''
                      | Inr hp \<Rightarrow> Host lib req);
              (asked, hit) = bypass h host
          in
          if hit then (dump @ asked @ [LogDebug (''bypass: '' @ host)], None)
          else
            (case Dial h ''tcp'' host of
               Inl err \<Rightarrow> (dump @ asked @ [RouterDial ''tcp'' host, LogError err], Some err)
             | Inr cc \<Rightarrow>
                 let before = dump @ asked @
                       [RouterDial ''tcp'' host, LogDebug (String raddr @ '' <-> '' @ host)];
                     after = [LogDebug (String raddr @ '' >-< '' @ host), UpstreamClose];
                     (sent, werr) = Request_Write lib req
                 in
                 (case werr of
                    Some err \<Rightarrow> (before @ [UpstreamWrite sent, LogError err] @ after, Some err)
                  | None \<Rightarrow>
                      (case ReadResponse lib cc req of
                         Inl err \<Rightarrow> (before @ [UpstreamWrite sent, LogError err] @ after, Some err)
                       | Inr resp \<Rightarrow>
                           let rdump = (if TraceLevel h then [LogTrace (DumpResponse lib resp)] else []);
                               (back, err) = Response_Write lib resp
                           in (before @ [UpstreamWrite sent] @ rdump @
                                 [ClientWrite back, ResponseBodyClose] @ after, err)))))"

text \<open>
  \<open>getServerName\<close>: the name of the first server name extension of the ClientHello,
  the empty string when there is none. The third component is the number of bytes it
  read from its reader.
\<close>

fun serverName :: "extension list \<Rightarrow> string" where
  "serverName [] = ''''"
| "serverName (ServerNameExtension name # exts) = name"
| "serverName (OtherExtension t # exts) = serverName exts"

definition getServerName ::
  "('req, 'resp) library \<Rightarrow> reader \<Rightarrow> string \<times> error option \<times> nat" where
  "getServerName lib r =
     (let (n, record) = ReadRecord lib (contents r) in
      (case record of
         Inl err \<Rightarrow> ('''', Some err, n)
       | Inr opaque \<Rightarrow>
           (case Decode lib opaque of
              Inl err \<Rightarrow> ('''', Some err, n)
            | Inr exts \<Rightarrow> (serverName exts, None, n))))"

text \<open>
  \<open>handleHTTPS\<close>. The tee copies what \<open>getServerName\<close> read into \<open>buf\<close>; the relay
  gets \<open>buf\<close> and then the rest of the stream.
\<close>

definition handleHTTPS ::
  "redirectHandler \<Rightarrow> ('req, 'resp) library \<Rightarrow> reader \<Rightarrow> addr \<Rightarrow> addr \<Rightarrow> event list \<times> error option" where
  "handleHTTPS h lib rw raddr dstAddr =
     (let (sni, err, n) = getServerName lib rw;
          buf = take n (contents rw);
          rw' = advance n rw
      in
      (case err of
         Some e \<Rightarrow> ([LogError e], Some e)
       | None \<Rightarrow>
           let host =
                 (if sni = '''' then String dstAddr
                  else (case SplitHostPort sni of
                          Inr hp \<Rightarrow> sni
                        | Inl e \<Rightarrow>
                            let port = (case SplitHostPort (String dstAddr) of
                                          Inl e' \<Rightarrow> ''''
                                        | Inr (dhost, dport) \<Rightarrow> dport)
                            in JoinHostPort sni (if port = '''' then ''443'' else port)));
               (asked, hit) = bypass h host
           in
           if hit then (asked @ [LogDebug (''bypass: '' @ host)], None)
           else
             (case Dial h ''tcp'' host of
                Inl e \<Rightarrow> (asked @ [RouterDial ''tcp'' host, LogError e], Some e)
              | Inr cc \<Rightarrow>
                  (asked @
                   [RouterDial ''tcp'' host,
                    LogDebug (String raddr @ '' <-> '' @ host),
                    Transport (contents (MultiReader buf rw')) cc,
                    LogDebug (String raddr @ '' >-< '' @ host),
                    UpstreamClose], None))))"

text \<open>The end of \<open>Handle\<close>: the relay to the original destination.\<close>

definition relayOpaque ::
  "redirectHandler \<Rightarrow> reader \<Rightarrow> addr \<Rightarrow> addr \<Rightarrow> event list \<times> error option" where
  "relayOpaque h rw raddr dstAddr =
     (let first = LogDebug (String raddr @ '' >> '' @ String dstAddr);
          (asked, hit) = bypass h (String dstAddr)
      in
      if hit then (first # asked @ [LogDebug (''bypass: '' @ String dstAddr)], None)
      else
        (case Dial h (Network dstAddr) (String dstAddr) of
           Inl e \<Rightarrow> (first # asked @ [RouterDial (Network dstAddr) (String dstAddr), LogError e], Some e)
         | Inr cc \<Rightarrow>
             (first # asked @
              [RouterDial (Network dstAddr) (String dstAddr),
               LogDebug (String raddr @ '' <-> '' @ String dstAddr),
               Transport (contents rw) cc,
               LogDebug (String raddr @ '' >-< '' @ String dstAddr),
               UpstreamClose], None)))"

text \<open>
  What \<open>Handle\<close> does once the destination is known: the sniffer, if it is enabled,
  and one of the three handlers.
\<close>

definition dispatch ::
  "redirectHandler \<Rightarrow> ('req, 'resp) library \<Rightarrow> conn \<Rightarrow> addr \<Rightarrow> event list \<times> error option" where
  "dispatch h lib c dstAddr =
     (if sniffing h then
        (case sniff (ReadRequest lib) (Conn (incoming c) (closing c)) of
           TLS rw \<Rightarrow> handleHTTPS h lib rw (RemoteAddr c) dstAddr
         | HTTP rw \<Rightarrow> handleHTTP h lib rw (RemoteAddr c)
         | Opaque rw \<Rightarrow> relayOpaque h rw (RemoteAddr c) dstAddr)
      else relayOpaque h (Conn (incoming c) (closing c)) (RemoteAddr c) dstAddr)"

text \<open>
  \<open>Handle\<close>. The two deferred calls, the closing log line and \<open>conn.Close\<close>, run on
  every return, and also while a panic unwinds.
\<close>

definition Handle ::
  "redirectHandler \<Rightarrow> ('req, 'resp) library \<Rightarrow> error + string \<Rightarrow> conn \<Rightarrow> event list \<times> outcome" where
  "Handle h lib cmd c =
     (let enter = LogInfo (String (RemoteAddr c) @ '' <> '' @ String (LocalAddr c));
          leave = [LogInfo (String (RemoteAddr c) @ '' >< '' @ String (LocalAddr c)), ConnClose]
      in
      if \<not> checkRateLimit h (RemoteAddr c) then (enter # leave, Returned None)
      else
        (case (if tproxy h then Ret (Some (LocalAddr c), None)
               else getOriginalDstAddr lib cmd c) of
           Panic p \<Rightarrow> (enter # leave, Panicked p)
         | Ret (dst, err) \<Rightarrow>
             (case err of
                Some e \<Rightarrow> (enter # LogError e # leave, Returned (Some e))
              | None \<Rightarrow>
                  (case dst of
                     None \<Rightarrow> (enter # leave, Panicked NilDereference)
                   | Some dstAddr \<Rightarrow>
                       let (evs, r) = dispatch h lib c dstAddr
                       in (enter # evs @ leave, Returned r)))))"

section \<open>A test double of the collaborators\<close>

text \<open>
  The theorems below hold for every library and every handler. Their instances are
  shown on this double: a request is anything that starts with \<open>GET\<close> and a space,
  and its host is example.com; a TLS record has the length of its payload in its
  5th byte; a ClientHello with the payload 01 carries the server names example.org
  and second.test, after an extension of another type, one with the payload 02 the
  server name other.test:8443, one with another payload no server name, and an empty
  payload is no ClientHello; the policy bypasses 10.0.0.1:80, example.com:80 and
  example.org:443; the command output is the IPv4 line of the specification.
\<close>

definition example_library :: "(string, byte list) library" where
  "example_library =
     \<lparr> ReadRequest = (\<lambda>bs. (length bs,
                          if take 4 bs = [0x47, 0x45, 0x54, 0x20] then Inr ''example.com''
                          else Inl (Error ''malformed HTTP request''))),
       Host = (\<lambda>req. req),
       DumpRequest = (\<lambda>req. req),
       Request_Write = (\<lambda>req. ([0x47, 0x45, 0x54, 0x20], None)),
       ReadResponse = (\<lambda>bs req. Inr bs),
       DumpResponse = (\<lambda>resp. ''response''),
       Response_Write = (\<lambda>resp. (resp, None)),
       ReadRecord = (\<lambda>bs. (5 + unat (bs ! 4), Inr (take (unat (bs ! 4)) (drop 5 bs)))),
       Decode = (\<lambda>opaque.
                   if opaque = [] then Inl (Error ''invalid client hello'')
                   else if opaque = [0x01]
                   then Inr [OtherExtension 10, ServerNameExtension ''example.org'',
                             ServerNameExtension ''second.test'']
                   else if opaque = [0x02] then Inr [ServerNameExtension ''other.test:8443'']
                   else Inr [OtherExtension 10]),
       TCPAddr_String = (\<lambda>host port. JoinHostPort host (Sprintf_d port)) \<rparr>"

definition example_handler :: "bool \<Rightarrow> redirectHandler" where
  "example_handler transparent =
     \<lparr> tproxy = transparent, sniffing = True,
       Bypass = Some (\<lambda>s. s \<in> set [''10.0.0.1:80'', ''example.com:80'', ''example.org:443'']),
       RateLimiter = None,
       Dial = (\<lambda>network address. Inr [0x4F, 0x4B]),
       TraceLevel = False \<rparr>"

definition example_conn :: "byte list \<Rightarrow> conn" where
  "example_conn bs =
     \<lparr> RemoteAddr = \<lparr>Network = ''tcp'', String = ''192.168.1.13:57474''\<rparr>,
       LocalAddr = \<lparr>Network = ''tcp'', String = ''10.0.0.1:80''\<rparr>,
       incoming = bs, closing = io_EOF \<rparr>"

definition example_table :: string where
  "example_table = ''ALL tcp 192.168.1.13:57474 -> 23.205.82.58:443       ESTABLISHED:ESTABLISHED''"

section \<open>Properties of the string functions\<close>

lemma Contains_iff: "Contains s sub \<longleftrightarrow> (\<exists>u v. s = u @ sub @ v)"
proof (induction s)
  case Nil
  then show ?case by auto
next
  case (Cons c cs)
  show ?case
  proof
    assume "Contains (c # cs) sub"
    then consider "prefix sub (c # cs)" | "Contains cs sub" by auto
    then show "\<exists>u v. c # cs = u @ sub @ v"
    proof cases
      case 1
      then obtain v where "c # cs = sub @ v" by (auto simp: prefix_def)
      then have "c # cs = [] @ sub @ v" by simp
      then show ?thesis by blast
    next
      case 2
      with Cons.IH obtain u v where "cs = u @ sub @ v" by blast
      then have "c # cs = (c # u) @ sub @ v" by simp
      then show ?thesis by blast
    qed
  next
    assume "\<exists>u v. c # cs = u @ sub @ v"
    then obtain u v where uv: "c # cs = u @ sub @ v" by blast
    show "Contains (c # cs) sub"
    proof (cases u)
      case Nil
      with uv have "prefix sub (c # cs)" by (simp add: prefix_def)
      then show ?thesis by simp
    next
      case (Cons d u')
      with uv have "cs = u' @ sub @ v" by simp
      with Cons.IH have "Contains cs sub" by blast
      then show ?thesis by simp
    qed
  qed
qed

lemma lookup_lines_no_match:
  "\<forall>line \<in> set lines. \<not> (Contains line ''ESTABLISHED:ESTABLISHED'' \<and>
       (Contains line v4 \<or> Contains line v6)) \<Longrightarrow>
   lookup_lines v4 v6 lines = Ret ('''', 0, Some could_not_resolve)"
  by (induction lines) auto

lemma lookup_lines_shape:
  "lookup_lines v4 v6 lines = Ret (a, n, Some e) \<Longrightarrow> a = '''' \<and> n = 0 \<and> e = could_not_resolve"
  by (induction lines) (auto simp: Let_def split: if_splits)

lemma Split_not_Nil: "Split s c \<noteq> []"
  by (induction s) (auto split: list.splits)

lemma Split_append_sep: "c \<notin> set xs \<Longrightarrow> Split (xs @ c # ys) c = xs # Split ys c"
  by (induction xs) (auto split: list.splits)

lemma Split_no_sep: "c \<notin> set xs \<Longrightarrow> Split xs c = [xs]"
  by (induction xs) (auto split: list.splits)

lemma Split_hd: "hd (Split s c) = takeWhile (\<lambda>x. x \<noteq> c) s"
  by (induction s) (auto split: list.splits simp: Split_not_Nil)

lemma split_at_first:
  assumes "c \<in> set r"
  shows "r = takeWhile (\<lambda>x. x \<noteq> c) r @ c # tl (dropWhile (\<lambda>x. x \<noteq> c) r)"
proof -
  from assms have "dropWhile (\<lambda>x. x \<noteq> c) r \<noteq> []" by simp
  moreover have "hd (dropWhile (\<lambda>x. x \<noteq> c) r) = c"
    using assms hd_dropWhile[of "\<lambda>x. x \<noteq> c" r] by auto
  ultimately have "dropWhile (\<lambda>x. x \<noteq> c) r = c # tl (dropWhile (\<lambda>x. x \<noteq> c) r)"
    by (cases "dropWhile (\<lambda>x. x \<noteq> c) r") auto
  then show ?thesis
    using takeWhile_dropWhile_id[of "\<lambda>x. x \<noteq> c" r] by simp
qed

lemma Split_key:
  assumes "c \<in> set r"
  shows "\<exists>rest. Split r c = takeWhile (\<lambda>x. x \<noteq> c) r
            # takeWhile (\<lambda>x. x \<noteq> c) (tl (dropWhile (\<lambda>x. x \<noteq> c) r)) # rest"
proof -
  let ?h = "takeWhile (\<lambda>x. x \<noteq> c) r" and ?t = "tl (dropWhile (\<lambda>x. x \<noteq> c) r)"
  have "c \<notin> set ?h" by (auto dest: set_takeWhileD)
  then have "Split (?h @ c # ?t) c = ?h # Split ?t c" by (rule Split_append_sep)
  with split_at_first[OF assms] have "Split r c = ?h # Split ?t c" by simp
  moreover have "Split ?t c = hd (Split ?t c) # tl (Split ?t c)"
    using Split_not_Nil[of ?t c] by simp
  ultimately show ?thesis using Split_hd[of ?t c] by metis
qed

lemma LocalToRemote_lookup:
  assumes "CHR '':'' \<in> set r"
  shows "LocalToRemote (Inr s) r =
           lookup (takeWhile (\<lambda>x. x \<noteq> CHR '':'') r)
                  (fst (Atoi (takeWhile (\<lambda>x. x \<noteq> CHR '':'') (tl (dropWhile (\<lambda>x. x \<noteq> CHR '':'') r))))) s"
proof -
  from Split_key[OF assms] obtain rest where
    sp: "Split r CHR '':'' = takeWhile (\<lambda>x. x \<noteq> CHR '':'') r
            # takeWhile (\<lambda>x. x \<noteq> CHR '':'') (tl (dropWhile (\<lambda>x. x \<noteq> CHR '':'') r)) # rest"
    by blast
  show ?thesis
    unfolding LocalToRemote_def sp PfctlLookup_def lookup_def
    by (auto simp: Let_def split: go.splits option.splits dest: lookup_lines_shape)
qed

lemma brackets_ok_open: "brackets_ok (u @ CHR ''['' # w) \<Longrightarrow> port_then_close w"
  by (induction u) auto

lemma not_port_then_close:
  assumes "CHR '']'' \<notin> set h" "c \<noteq> CHR '']''" "\<not> is_digit c"
  shows "\<not> port_then_close (h @ c # t)"
proof (cases "\<forall>x \<in> set h. is_digit x")
  case True
  then have "dropWhile is_digit (h @ c # t) = c # t"
    using assms(3) by (simp add: dropWhile_append2)
  then show ?thesis using assms(2) by (simp add: port_then_close_def)
next
  case False
  then have ne: "dropWhile is_digit h \<noteq> []" by (simp add: dropWhile_eq_Nil_conv)
  from False have "dropWhile is_digit (h @ c # t) = dropWhile is_digit h @ c # t"
    by (auto simp: dropWhile_append1)
  moreover have "hd (dropWhile is_digit h) \<in> set h"
    using ne by (meson hd_in_set set_dropWhileD)
  ultimately show ?thesis using assms(1) ne
    by (cases "dropWhile is_digit h") (auto simp: port_then_close_def)
qed

lemma brackets_ok_no_key:
  assumes "brackets_ok l" "CHR '']'' \<notin> set h" "c \<noteq> CHR '']''" "\<not> is_digit c"
  shows "\<not> Contains l (CHR ''['' # h @ c # t)"
proof
  assume "Contains l (CHR ''['' # h @ c # t)"
  then obtain u v where "l = u @ (CHR ''['' # h @ c # t) @ v" by (auto simp: Contains_iff)
  then have "l = u @ CHR ''['' # (h @ c # (t @ v))" by simp
  with assms(1) have "port_then_close (h @ c # (t @ v))" using brackets_ok_open by blast
  with not_port_then_close[OF assms(2-4)] show False by blast
qed

lemma brackets_ok_no_open: "CHR ''['' \<notin> set xs \<Longrightarrow> brackets_ok (xs @ ys) = brackets_ok ys"
  by (induction xs) auto

lemma digit_char_is_digit: "d < 10 \<Longrightarrow> is_digit (digit_char d)"
proof -
  assume "d < 10"
  then have "d \<in> {0,1,2,3,4,5,6,7,8,9}" by auto
  then show ?thesis by (auto simp: digit_char_def is_digit_def)
qed

lemma decimal_digits: "list_all is_digit (decimal n)"
proof (induction n rule: decimal.induct)
  case (1 n)
  show ?case
  proof (cases "n < 10")
    case True
    then show ?thesis by (subst decimal.simps) (simp add: digit_char_is_digit)
  next
    case False
    with 1 have "list_all is_digit (decimal (n div 10))" by simp
    moreover have "is_digit (digit_char (n mod 10))" by (simp add: digit_char_is_digit)
    ultimately show ?thesis using False by (subst decimal.simps) simp
  qed
qed

lemma is_digit_not_open: "is_digit c \<Longrightarrow> c \<noteq> CHR ''[''"
  by (auto simp: is_digit_def)

lemma brackets_ok_port:
  assumes "list_all is_digit ds"
  shows "brackets_ok (CHR ''['' # ds @ CHR '']'' # rest) = brackets_ok rest"
proof -
  have "dropWhile is_digit (ds @ CHR '']'' # rest) = CHR '']'' # rest"
    using assms by (simp add: dropWhile_append2 list_all_iff is_digit_def)
  then have "port_then_close (ds @ CHR '']'' # rest)" by (simp add: port_then_close_def)
  moreover have "CHR ''['' \<notin> set ds" using assms by (auto simp: list_all_iff dest: is_digit_not_open)
  ultimately show ?thesis using brackets_ok_no_open[of ds "CHR '']'' # rest"] by simp
qed

lemma decimal_no_open: "CHR ''['' \<notin> set (decimal n)"
  using decimal_digits[of n] by (auto simp: list_all_iff dest: is_digit_not_open)

lemma state_line_v6_brackets:
  assumes "CHR ''['' \<notin> set src" "CHR ''['' \<notin> set dst"
  shows "brackets_ok (state_line_v6 src sport dst dport)"
proof -
  have 1: "brackets_ok (CHR ''['' # decimal dport @ CHR '']'' # ''  ESTABLISHED:ESTABLISHED'')"
    by (simp only: brackets_ok_port[OF decimal_digits]) simp
  have 2: "brackets_ok ('' -> '' @ dst @ CHR ''['' # decimal dport @ CHR '']'' # ''  ESTABLISHED:ESTABLISHED'')"
    using 1 assms(2) brackets_ok_no_open[of "'' -> '' @ dst"] by simp
  have 3: "brackets_ok (CHR ''['' # decimal sport @ CHR '']'' # '' -> '' @ dst @ CHR ''['' # decimal dport @ CHR '']'' # ''  ESTABLISHED:ESTABLISHED'')"
    using 2 by (simp only: brackets_ok_port[OF decimal_digits])
  have 4: "brackets_ok ((''ALL tcp '' @ src) @ CHR ''['' # decimal sport @ CHR '']'' # '' -> '' @ dst @ CHR ''['' # decimal dport @ CHR '']'' # ''  ESTABLISHED:ESTABLISHED'')"
    using 3 assms(1) by (subst brackets_ok_no_open) auto
  then show ?thesis by (simp add: state_line_v6_def)
qed

lemma brackets_ok_none: "CHR ''['' \<notin> set xs \<Longrightarrow> brackets_ok xs"
  using brackets_ok_no_open[of xs "[]"] by simp

lemma state_line_v4_brackets:
  assumes "CHR ''['' \<notin> set src" "CHR ''['' \<notin> set dst"
  shows "brackets_ok (state_line_v4 src sport dst dport)"
  using assms by (intro brackets_ok_none) (simp add: state_line_v4_def decimal_no_open)

lemma state_table_line_brackets: "state_table_line l \<Longrightarrow> brackets_ok l"
  by (auto simp: state_table_line_def state_line_v4_brackets state_line_v6_brackets)

lemma is_digit_simps: "\<not> is_digit CHR '':''" "\<not> is_digit CHR ''[''"
  by (simp_all add: is_digit_def)

lemma ipv6_client_unresolved:
  assumes "CHR '':'' \<in> set a" and "CHR '']'' \<notin> set a"
    and "\<forall>l \<in> set (Split s CHR 0x0A). state_table_line l"
  shows "LocalToRemote (Inr s) (JoinHostPort a port) = Ret ('''', 0, Some could_not_resolve)"
proof -
  let ?r = "JoinHostPort a port"
  let ?h = "takeWhile (\<lambda>x. x \<noteq> CHR '':'') a"
  have r: "?r = CHR ''['' # a @ '']:'' @ port" using assms(1) by (simp add: JoinHostPort_def)
  then have "CHR '':'' \<in> set ?r" by simp
  note L = LocalToRemote_lookup[OF this, of s]
  have a_ne: "a \<noteq> []" using assms(1) by auto
  have "\<exists>x \<in> set a. \<not> x \<noteq> CHR '':''" using assms(1) by blast
  then have "takeWhile (\<lambda>x. x \<noteq> CHR '':'') (a @ '']:'' @ port) = ?h"
    by (metis (mono_tags, lifting) takeWhile_append1)
  then have tw: "takeWhile (\<lambda>x. x \<noteq> CHR '':'') ?r = CHR ''['' # ?h"
    unfolding r by simp
  have h_nb: "CHR '']'' \<notin> set ?h" using assms(2) by (auto dest: set_takeWhileD)
  define n where "n = fst (Atoi (takeWhile (\<lambda>x. x \<noteq> CHR '':'') (tl (dropWhile (\<lambda>x. x \<noteq> CHR '':'') ?r))))"
  have "\<forall>line \<in> set (Split s CHR 0x0A). \<not> (Contains line ''ESTABLISHED:ESTABLISHED'' \<and>
       (Contains line (specv4 (CHR ''['' # ?h) n) \<or> Contains line (specv6 (CHR ''['' # ?h) n)))"
  proof
    fix line assume "line \<in> set (Split s CHR 0x0A)"
    with assms(3) have b: "brackets_ok line" by (auto dest: state_table_line_brackets)
    have "\<not> Contains line (CHR ''['' # ?h @ CHR '':'' # Sprintf_d n)"
      by (rule brackets_ok_no_key[OF b h_nb]) (simp_all add: is_digit_simps)
    moreover have "\<not> Contains line (CHR ''['' # ?h @ CHR ''['' # (Sprintf_d n @ '']''))"
      by (rule brackets_ok_no_key[OF b h_nb]) (simp_all add: is_digit_simps)
    ultimately show "\<not> (Contains line ''ESTABLISHED:ESTABLISHED'' \<and>
       (Contains line (specv4 (CHR ''['' # ?h) n) \<or> Contains line (specv6 (CHR ''['' # ?h) n)))"
      by (simp add: specv4_def specv6_def)
  qed
  then have "lookup (CHR ''['' # ?h) n s = Ret ('''', 0, Some could_not_resolve)"
    unfolding lookup_def by (rule lookup_lines_no_match)
  with L tw show ?thesis by (simp add: n_def)
qed

section \<open>The state-table lookup\<close>

lemma decimal_small: "n < 10 \<Longrightarrow> decimal n = [digit_char n]"
  by (subst decimal.simps) simp

lemma decimal_large:
  "10 \<le> n \<Longrightarrow> decimal n = decimal (n div 10) @ [digit_char (n mod 10)]"
  by (subst decimal.simps) simp

lemmas resolver_defs =
  lookup_def specv4_def specv6_def Sprintf_d_def decimal_small decimal_large digit_char_def isSpace_def Fields_def
  convertPortToInt_def Atoi_def unsigned_part_def is_digit_def

text \<open>
  Claim C3. On the IPv4 line of the specification and the key (192.168.1.13, 57474)
  the lookup returns (23.205.82.58, 443); on the IPv6 line and its key it returns
  (2606:4700:30::681f:4ad0, 443); and on every table text in which no line both
  carries the tag ESTABLISHED:ESTABLISHED and contains the key, in the IPv4 or in the
  IPv6 spelling, it returns the error "could not resolve original destination".
\<close>

theorem lookup_state_table_parse:
  "lookup ''192.168.1.13'' 57474
     ''ALL tcp 192.168.1.13:57474 -> 23.205.82.58:443       ESTABLISHED:ESTABLISHED''
     = Ret (''23.205.82.58'', 443, None)
   \<and> lookup ''2a01:e35:8bae:50f0:9d9b:ef0d:2de3:b733'' 58505
     ''ALL tcp 2a01:e35:8bae:50f0:9d9b:ef0d:2de3:b733[58505] -> 2606:4700:30::681f:4ad0[443]  ESTABLISHED:ESTABLISHED''
     = Ret (''2606:4700:30::681f:4ad0'', 443, None)
   \<and> ((\<forall>line \<in> set (Split s CHR 0x0A).
          \<not> (Contains line ''ESTABLISHED:ESTABLISHED'' \<and>
             (Contains line (specv4 address port) \<or> Contains line (specv6 address port))))
        \<longrightarrow> lookup address port s = Ret ('''', 0, Some could_not_resolve))"
proof (intro conjI impI)
  show "lookup ''192.168.1.13'' 57474
     ''ALL tcp 192.168.1.13:57474 -> 23.205.82.58:443       ESTABLISHED:ESTABLISHED''
     = Ret (''23.205.82.58'', 443, None)"
    by (simp add: resolver_defs)
  show "lookup ''2a01:e35:8bae:50f0:9d9b:ef0d:2de3:b733'' 58505
     ''ALL tcp 2a01:e35:8bae:50f0:9d9b:ef0d:2de3:b733[58505] -> 2606:4700:30::681f:4ad0[443]  ESTABLISHED:ESTABLISHED''
     = Ret (''2606:4700:30::681f:4ad0'', 443, None)"
    by (simp add: resolver_defs)
next
  assume "\<forall>line \<in> set (Split s CHR 0x0A).
          \<not> (Contains line ''ESTABLISHED:ESTABLISHED'' \<and>
             (Contains line (specv4 address port) \<or> Contains line (specv6 address port)))"
  then show "lookup address port s = Ret ('''', 0, Some could_not_resolve)"
    unfolding lookup_def by (rule lookup_lines_no_match)
qed

text \<open>
  The third part of C3 at a table that holds the IPv4 line of another client, and at
  a line of the right client whose state is not ESTABLISHED:ESTABLISHED.
\<close>

theorem lookup_state_table_parse_witness:
  "lookup ''10.0.0.7'' 57474
       ''ALL tcp 192.168.1.13:57474 -> 23.205.82.58:443       ESTABLISHED:ESTABLISHED''
       = Ret ('''', 0, Some could_not_resolve)"
proof -
  have h: "\<forall>line \<in> set (Split ''ALL tcp 192.168.1.13:57474 -> 23.205.82.58:443       ESTABLISHED:ESTABLISHED'' CHR 0x0A).
          \<not> (Contains line ''ESTABLISHED:ESTABLISHED'' \<and>
             (Contains line (specv4 ''10.0.0.7'' 57474) \<or> Contains line (specv6 ''10.0.0.7'' 57474)))"
    by (simp add: resolver_defs)
  from lookup_state_table_parse
    [of "''ALL tcp 192.168.1.13:57474 -> 23.205.82.58:443       ESTABLISHED:ESTABLISHED''"
        "''10.0.0.7''" 57474]
  show ?thesis using h by blast
qed

text \<open>
  Claim C4 says that the lookup never panics. It does: on a line that carries the
  tag and the IPv6 spelling of the key, and whose 5th field has no opening bracket,
  \<open>portPart\<close> has one element and \<open>portPart[1]\<close> is out of range. Such a line is
  the state of a translated connection, where the 5th field is the arrow. The IPv4
  branch checks the length of its split before it indexes; the IPv6 branch does not.
\<close>

theorem lookup_ipv6_branch_panics:
  "lookup ''2a01::5'' 58505
     ''ALL tcp 2a01::5[58505] (fe80::1[1024]) -> 2606:4700::1[443]  ESTABLISHED:ESTABLISHED''
     = Panic (IndexOutOfRange 1 1)"
  by (simp add: resolver_defs)

text \<open>
  Claim C5 says that the key port of an IPv6 client is always 0. It is the number
  between the first and the second colon when that text is a decimal number: for the
  client [2001:470::1]:5000 the key is ([2001, 470), which a table can tell from
  ([2001, 0).
\<close>

theorem LocalToRemote_key_port_counterexample:
  "LocalToRemote (Inr ''ALL tcp [2001:470 -> 10.0.0.1:80 ESTABLISHED:ESTABLISHED'')
       ''[2001:470::1]:5000''
     \<noteq> lookup ''[2001'' 0 ''ALL tcp [2001:470 -> 10.0.0.1:80 ESTABLISHED:ESTABLISHED''"
proof -
  have "LocalToRemote (Inr ''ALL tcp [2001:470 -> 10.0.0.1:80 ESTABLISHED:ESTABLISHED'')
       ''[2001:470::1]:5000'' = Ret (''10.0.0.1'', 80, None)"
    by (simp add: LocalToRemote_def PfctlLookup_def resolver_defs)
  moreover have "lookup ''[2001'' 0 ''ALL tcp [2001:470 -> 10.0.0.1:80 ESTABLISHED:ESTABLISHED''
      = Ret ('''', 0, Some could_not_resolve)"
    by (simp add: resolver_defs could_not_resolve_def)
  ultimately show ?thesis by simp
qed

text \<open>
  Claim C5, amended. For a remote address with a colon, \<open>LocalToRemote\<close> looks up the
  key whose host is the text before the first colon and whose port is the value of
  \<open>Atoi\<close> on the text between the first and the second colon (0 when that text is
  not a decimal number: the error is dropped). For an IPv6 client, whose remote
  address is \<open>[a]:port\<close>, the key host starts with the bracket, and no table in the
  format of the state table resolves it.
\<close>

theorem LocalToRemote_key:
  "(CHR '':'' \<in> set r \<longrightarrow>
      LocalToRemote (Inr s) r =
        lookup (takeWhile (\<lambda>x. x \<noteq> CHR '':'') r)
               (fst (Atoi (takeWhile (\<lambda>x. x \<noteq> CHR '':'')
                              (tl (dropWhile (\<lambda>x. x \<noteq> CHR '':'') r))))) s)
   \<and> (CHR '':'' \<in> set a \<and> CHR '']'' \<notin> set a
        \<and> (\<forall>l \<in> set (Split t CHR 0x0A). state_table_line l) \<longrightarrow>
      LocalToRemote (Inr t) (JoinHostPort a port) = Ret ('''', 0, Some could_not_resolve))"
  using LocalToRemote_lookup ipv6_client_unresolved by blast

theorem LocalToRemote_key_witness:
  "CHR '':'' \<in> set ''[2a01:e35:8bae:50f0:9d9b:ef0d:2de3:b733]:58505''
   \<and> CHR '':'' \<in> set ''2a01:e35:8bae:50f0:9d9b:ef0d:2de3:b733''
   \<and> CHR '']'' \<notin> set ''2a01:e35:8bae:50f0:9d9b:ef0d:2de3:b733''
   \<and> state_table_line ''ALL tcp 2a01:e35:8bae:50f0:9d9b:ef0d:2de3:b733[58505] -> 2606:4700:30::681f:4ad0[443]  ESTABLISHED:ESTABLISHED''
   \<and> LocalToRemote
        (Inr ''ALL tcp 2a01:e35:8bae:50f0:9d9b:ef0d:2de3:b733[58505] -> 2606:4700:30::681f:4ad0[443]  ESTABLISHED:ESTABLISHED'')
        ''[2a01:e35:8bae:50f0:9d9b:ef0d:2de3:b733]:58505''
      = lookup ''[2a01'' 0
        ''ALL tcp 2a01:e35:8bae:50f0:9d9b:ef0d:2de3:b733[58505] -> 2606:4700:30::681f:4ad0[443]  ESTABLISHED:ESTABLISHED''
   \<and> LocalToRemote
        (Inr ''ALL tcp 2a01:e35:8bae:50f0:9d9b:ef0d:2de3:b733[58505] -> 2606:4700:30::681f:4ad0[443]  ESTABLISHED:ESTABLISHED'')
        (JoinHostPort ''2a01:e35:8bae:50f0:9d9b:ef0d:2de3:b733'' ''58505'')
      = Ret ('''', 0, Some could_not_resolve)"
proof -
  let ?a = "''2a01:e35:8bae:50f0:9d9b:ef0d:2de3:b733''"
  let ?r = "''[2a01:e35:8bae:50f0:9d9b:ef0d:2de3:b733]:58505''"
  let ?t = "''ALL tcp 2a01:e35:8bae:50f0:9d9b:ef0d:2de3:b733[58505] -> 2606:4700:30::681f:4ad0[443]  ESTABLISHED:ESTABLISHED''"
  have line: "state_line_v6 ?a 58505 ''2606:4700:30::681f:4ad0'' 443 = ?t"
    by (simp add: state_line_v6_def decimal_small decimal_large digit_char_def)
  have st: "state_table_line ?t"
    unfolding state_table_line_def
    by (rule disjI2, rule exI[of _ ?a], rule exI[of _ 58505],
        rule exI[of _ "''2606:4700:30::681f:4ad0''"], rule exI[of _ 443]) (simp add: line)
  then have h3: "\<forall>l \<in> set (Split ?t CHR 0x0A). state_table_line l" by simp
  have h0: "CHR '':'' \<in> set ?r" by simp
  have h1: "CHR '':'' \<in> set ?a" by simp
  have h2: "CHR '']'' \<notin> set ?a" by simp
  note K = LocalToRemote_key [of ?r ?t ?a ?t "''58505''"]
  from K h0 have "LocalToRemote (Inr ?t) ?r = lookup ''[2a01'' 0 ?t"
    by (simp add: Atoi_def unsigned_part_def is_digit_def)
  moreover from K h1 h2 h3
  have "LocalToRemote (Inr ?t) (JoinHostPort ?a ''58505'') = Ret ('''', 0, Some could_not_resolve)"
    by blast
  ultimately show ?thesis using h0 h1 h2 st by blast
qed

section \<open>Properties of the streams and of the sniffer\<close>

lemma ucast_low: "ucast (ucast b OR push_bit 8 (ucast a) :: 16 word) = (b :: 8 word)"
  by (rule bit_word_eqI) (auto simp: bit_simps)

lemma byte_no_high_bit: "bit (b :: 8 word) (8 + n) \<Longrightarrow> False"
  using bit_imp_le_length[of b "8 + n"] by auto

lemma ucast_high:
  "ucast (drop_bit 8 (ucast (b :: 8 word) OR push_bit 8 (ucast a) :: 16 word)) = (a :: 8 word)"
  by (rule bit_word_eqI) (auto simp: bit_simps dest: byte_no_high_bit)

lemma Uint16_TLS10: "BigEndian_Uint16 a b = VersionTLS10 \<longleftrightarrow> a = 3 \<and> b = 1"
proof
  assume h: "BigEndian_Uint16 a b = VersionTLS10"
  have "a = ucast (drop_bit 8 (BigEndian_Uint16 a b))"
    unfolding BigEndian_Uint16_def by (simp only: ucast_high)
  also have "\<dots> = 3" by (simp add: h VersionTLS10_def)
  finally have a: "a = 3" .
  have "b = ucast (BigEndian_Uint16 a b)"
    unfolding BigEndian_Uint16_def by (simp only: ucast_low)
  also have "\<dots> = 1" by (simp add: h VersionTLS10_def)
  finally show "a = 3 \<and> b = 1" using a by simp
next
  assume "a = 3 \<and> b = 1"
  then show "BigEndian_Uint16 a b = VersionTLS10"
    by (simp add: BigEndian_Uint16_def VersionTLS10_def)
qed

lemma contents_advance: "contents (advance n r) = drop n (contents r)"
  by (induction r arbitrary: n) auto

lemma probeTLS_full:
  assumes "RecordHeaderLen \<le> length (contents rw)"
  shows "probeTLS rw =
           (contents rw ! 0 = Handshake \<and> contents rw ! 1 = 3 \<and> contents rw ! 2 = 1,
            MultiReader (take RecordHeaderLen (contents rw)) (advance RecordHeaderLen rw))"
  using assms
  by (simp add: probeTLS_def ReadFull_def Let_def Uint16_TLS10 RecordHeaderLen_def)

lemma probeTLS_short:
  assumes "length (contents rw) < RecordHeaderLen"
  shows "fst (probeTLS rw) = False"
  using assms by (simp add: probeTLS_def ReadFull_def Let_def split: prod.splits)

lemma probeTLS_contents:
  "RecordHeaderLen \<le> length (contents rw) \<Longrightarrow> contents (snd (probeTLS rw)) = contents rw"
  by (simp add: probeTLS_full contents_advance)

lemma probeHTTP_contents: "contents (snd (probeHTTP rr rw)) = contents rw"
  by (simp add: probeHTTP_def Let_def contents_advance split: prod.splits)

lemma sniff_stream:
  "contents (stream (sniff rr rw)) = contents (snd (probeTLS rw))"
proof -
  obtain tls rw' where p: "probeTLS rw = (tls, rw')" by (cases "probeTLS rw")
  obtain res rw'' where q: "probeHTTP rr rw' = (res, rw'')" by (cases "probeHTTP rr rw'")
  have "contents rw'' = contents rw'" using probeHTTP_contents[of rr rw'] q by simp
  then show ?thesis by (cases res) (simp_all add: sniff_def p q)
qed

lemma sniff_replay_full:
  "RecordHeaderLen \<le> length bs \<Longrightarrow> contents (stream (sniff rr (Conn bs e))) = bs"
  by (simp add: sniff_stream probeTLS_contents)

section \<open>Replay and classification\<close>

text \<open>
  Claim C2 says that the stream after the sniffer is the input, byte for byte, also
  when the client closes before a whole record header came. For such an input it is
  not: of the three bytes \<open>GET\<close> the TLS probe makes five, since it puts the whole
  array \<open>hdr\<close> back and not the part that was read. (When the input has at least
  \<open>RecordHeaderLen\<close> bytes the stream is the input: lemma \<open>sniff_replay_full\<close>.)
\<close>

theorem sniff_short_input_padded:
  "contents (stream (sniff rr (Conn [0x47, 0x45, 0x54] io_EOF)))
     = [0x47, 0x45, 0x54, 0, 0]"
  by (simp add: sniff_stream probeTLS_def ReadFull_def RecordHeaderLen_def numeral_2_eq_2)

text \<open>
  Claim C7 says that every stream that begins with the handshake type and the
  TLS 1.0 version is classified as TLS. A stream that ends after these three bytes
  is not: the probe wants the whole record header.
\<close>

theorem sniff_tls_prefix_counterexample:
  "[0x16, 0x03, 0x01] ! 0 = Handshake
   \<and> BigEndian_Uint16 ([0x16, 0x03, 0x01] ! 1) ([0x16, 0x03, 0x01] ! 2) = VersionTLS10
   \<and> \<not> is_TLS (sniff (ReadRequest example_library) (Conn [0x16, 0x03, 0x01] io_EOF))"
proof -
  have "fst (probeTLS (Conn [0x16, 0x03, 0x01] io_EOF)) = False"
    by (rule probeTLS_short) (simp add: RecordHeaderLen_def)
  then have "\<not> is_TLS (sniff (ReadRequest example_library) (Conn [0x16, 0x03, 0x01] io_EOF))"
    by (auto simp: sniff_def split: prod.splits sum.splits)
  then show ?thesis by (simp add: Handshake_def Uint16_TLS10)
qed

text \<open>
  Claim C7, amended. A stream of at least \<open>RecordHeaderLen\<close> (5) bytes whose first
  byte is the handshake type and whose next two bytes are the TLS 1.0 version is
  classified as TLS, whatever follows; a stream of fewer bytes is never classified as
  TLS; a stream of at least 5 bytes that does not begin so is classified as HTTP when
  \<open>http.ReadRequest\<close> reads a request from it, and as Opaque when it fails.
\<close>

theorem sniff_classification:
  "(RecordHeaderLen \<le> length bs \<and> bs ! 0 = Handshake \<and> bs ! 1 = 0x03 \<and> bs ! 2 = 0x01
      \<longrightarrow> is_TLS (sniff rr (Conn bs e)))
   \<and> (length bs < RecordHeaderLen \<longrightarrow> \<not> is_TLS (sniff rr (Conn bs e)))
   \<and> (RecordHeaderLen \<le> length bs \<and> \<not> (bs ! 0 = Handshake \<and> bs ! 1 = 0x03 \<and> bs ! 2 = 0x01)
        \<and> isl (snd (rr bs)) \<longrightarrow> is_Opaque (sniff rr (Conn bs e)))
   \<and> (RecordHeaderLen \<le> length bs \<and> \<not> (bs ! 0 = Handshake \<and> bs ! 1 = 0x03 \<and> bs ! 2 = 0x01)
        \<and> \<not> isl (snd (rr bs)) \<longrightarrow> is_HTTP (sniff rr (Conn bs e)))"
proof (intro conjI impI)
  assume "RecordHeaderLen \<le> length bs \<and> bs ! 0 = Handshake \<and> bs ! 1 = 0x03 \<and> bs ! 2 = 0x01"
  then show "is_TLS (sniff rr (Conn bs e))"
    using probeTLS_full[of "Conn bs e"] by (simp add: sniff_def)
next
  assume "length bs < RecordHeaderLen"
  then have "fst (probeTLS (Conn bs e)) = False" by (simp add: probeTLS_short)
  then show "\<not> is_TLS (sniff rr (Conn bs e))"
    by (auto simp: sniff_def split: prod.splits sum.splits)
next
  assume a: "RecordHeaderLen \<le> length bs \<and> \<not> (bs ! 0 = Handshake \<and> bs ! 1 = 0x03 \<and> bs ! 2 = 0x01)
        \<and> isl (snd (rr bs))"
  then have "probeTLS (Conn bs e) =
      (False, MultiReader (take RecordHeaderLen bs) (Conn (drop RecordHeaderLen bs) e))"
    using probeTLS_full[of "Conn bs e"] by simp
  then show "is_Opaque (sniff rr (Conn bs e))"
    using a by (auto simp: sniff_def probeHTTP_def Let_def isl_def split: prod.splits sum.splits)
next
  assume a: "RecordHeaderLen \<le> length bs \<and> \<not> (bs ! 0 = Handshake \<and> bs ! 1 = 0x03 \<and> bs ! 2 = 0x01)
        \<and> \<not> isl (snd (rr bs))"
  then have "probeTLS (Conn bs e) =
      (False, MultiReader (take RecordHeaderLen bs) (Conn (drop RecordHeaderLen bs) e))"
    using probeTLS_full[of "Conn bs e"] by simp
  then show "is_HTTP (sniff rr (Conn bs e))"
    using a by (auto simp: sniff_def probeHTTP_def Let_def isl_def split: prod.splits sum.splits)
qed

text \<open>
  The four parts of the amended C7 on the double: a record header and two bytes, a
  header cut after three bytes, six bytes that are no request, and \<open>GET /\<close>.
\<close>

theorem sniff_classification_witness:
  "is_TLS (sniff (ReadRequest example_library) (Conn [0x16, 0x03, 0x01, 0x00, 0x02, 0x07, 0x07] io_EOF))
   \<and> \<not> is_TLS (sniff (ReadRequest example_library) (Conn [0x16, 0x03] io_EOF))
   \<and> is_Opaque (sniff (ReadRequest example_library) (Conn [1, 2, 3, 4, 5, 6] io_EOF))
   \<and> is_HTTP (sniff (ReadRequest example_library) (Conn [0x47, 0x45, 0x54, 0x20, 0x2F] io_EOF))"
proof -
  note T = sniff_classification
    [of "[0x16, 0x03, 0x01, 0x00, 0x02, 0x07, 0x07]" "ReadRequest example_library" io_EOF]
  note S = sniff_classification [of "[0x16, 0x03]" "ReadRequest example_library" io_EOF]
  note P = sniff_classification [of "[1, 2, 3, 4, 5, 6]" "ReadRequest example_library" io_EOF]
  note H = sniff_classification
    [of "[0x47, 0x45, 0x54, 0x20, 0x2F]" "ReadRequest example_library" io_EOF]
  have 1: "is_TLS (sniff (ReadRequest example_library) (Conn [0x16, 0x03, 0x01, 0x00, 0x02, 0x07, 0x07] io_EOF))"
    using T by (simp add: RecordHeaderLen_def Handshake_def)
  have 2: "\<not> is_TLS (sniff (ReadRequest example_library) (Conn [0x16, 0x03] io_EOF))"
    using S by (simp add: RecordHeaderLen_def)
  have 3: "is_Opaque (sniff (ReadRequest example_library) (Conn [1, 2, 3, 4, 5, 6] io_EOF))"
    using P by (simp add: RecordHeaderLen_def Handshake_def example_library_def)
  have 4: "is_HTTP (sniff (ReadRequest example_library) (Conn [0x47, 0x45, 0x54, 0x20, 0x2F] io_EOF))"
    using H by (simp add: RecordHeaderLen_def Handshake_def example_library_def)
  from 1 2 3 4 show ?thesis by blast
qed

section \<open>Properties of the handlers\<close>

lemma tls_host:
  "(if sni = '''' then d
    else (case SplitHostPort sni of
            Inr hp \<Rightarrow> sni
          | Inl e \<Rightarrow> let port = p in JoinHostPort sni (if port = '''' then ''443'' else port)))
   = (if sni = '''' then d
      else if isl (SplitHostPort sni) then JoinHostPort sni (if p = '''' then ''443'' else p)
      else sni)"
  by (simp add: Let_def isl_def split: sum.splits)

lemma handleHTTPS_decoded:
  assumes "getServerName lib rw = (sni, None, n)"
    and "target =
           (if sni = '''' then String dstAddr
            else if isl (SplitHostPort sni)
                 then JoinHostPort sni
                        (if (case SplitHostPort (String dstAddr) of
                               Inl e \<Rightarrow> '''' | Inr (dhost, dport) \<Rightarrow> dport) = ''''
                         then ''443''
                         else (case SplitHostPort (String dstAddr) of
                                 Inl e \<Rightarrow> '''' | Inr (dhost, dport) \<Rightarrow> dport))
                 else sni)"
  shows "handleHTTPS h lib rw raddr dstAddr =
           (case bypass h target of
              (asked, hit) \<Rightarrow>
                if hit then (asked @ [LogDebug (''bypass: '' @ target)], None)
                else (case Dial h ''tcp'' target of
                        Inl e \<Rightarrow> (asked @ [RouterDial ''tcp'' target, LogError e], Some e)
                      | Inr cc \<Rightarrow>
                          (asked @
                           [RouterDial ''tcp'' target,
                            LogDebug (String raddr @ '' <-> '' @ target),
                            Transport (contents (MultiReader (take n (contents rw)) (advance n rw))) cc,
                            LogDebug (String raddr @ '' >-< '' @ target),
                            UpstreamClose], None)))"
  unfolding handleHTTPS_def assms(1) assms(2) tls_host[symmetric]
  by (simp add: Let_def split: prod.splits sum.splits)

lemma relayOpaque_not_bypassed:
  assumes "Bypass h = Some policy"
    and "RouterDial n a \<in> set (fst (relayOpaque h rw raddr dstAddr))"
  shows "\<not> policy a"
  using assms
  by (auto simp: relayOpaque_def bypass_def Let_def split: if_splits sum.splits)

lemma handleHTTP_not_bypassed:
  assumes "Bypass h = Some policy"
    and "RouterDial n a \<in> set (fst (handleHTTP h lib rw raddr))"
  shows "\<not> policy a"
  using assms
  by (auto simp: handleHTTP_def bypass_def Let_def
           split: if_splits sum.splits prod.splits option.splits)

lemma handleHTTPS_not_bypassed:
  assumes "Bypass h = Some policy"
    and "RouterDial n a \<in> set (fst (handleHTTPS h lib rw raddr dstAddr))"
  shows "\<not> policy a"
  using assms
  by (auto simp: handleHTTPS_def bypass_def Let_def
           split: if_splits sum.splits prod.splits option.splits)

lemma dispatch_not_bypassed:
  assumes "Bypass h = Some policy"
    and "RouterDial n a \<in> set (fst (dispatch h lib c dstAddr))"
  shows "\<not> policy a"
  using assms
  by (auto simp: dispatch_def split: if_splits sniffed.splits
           dest: relayOpaque_not_bypassed handleHTTP_not_bypassed handleHTTPS_not_bypassed)

lemma relayOpaque_bypassed:
  assumes "Bypass h = Some policy" and "policy (String dstAddr)"
  shows "relayOpaque h rw raddr dstAddr =
           ([LogDebug (String raddr @ '' >> '' @ String dstAddr),
             BypassContains (String dstAddr) True,
             LogDebug (''bypass: '' @ String dstAddr)], None)"
  using assms by (simp add: relayOpaque_def bypass_def)

lemma handleHTTP_bypassed:
  assumes "Bypass h = Some policy" and "snd (ReadRequest lib (contents rw)) = Inr req"
    and "policy (case SplitHostPort (Host lib req) of
                   Inl e \<Rightarrow> JoinHostPort (Host lib req) ''80''
                 | Inr hp \<Rightarrow> Host lib req)"
  shows "snd (handleHTTP h lib rw raddr) = None
         \<and> (\<forall>n a. RouterDial n a \<notin> set (fst (handleHTTP h lib rw raddr)))"
  using assms by (auto simp: handleHTTP_def bypass_def Let_def)

lemma handleHTTPS_bypassed:
  assumes "Bypass h = Some policy" and "getServerName lib rw = (sni, None, n)"
    and "target =
           (if sni = '''' then String dstAddr
            else if isl (SplitHostPort sni)
                 then JoinHostPort sni
                        (if (case SplitHostPort (String dstAddr) of
                               Inl e \<Rightarrow> '''' | Inr (dhost, dport) \<Rightarrow> dport) = ''''
                         then ''443''
                         else (case SplitHostPort (String dstAddr) of
                                 Inl e \<Rightarrow> '''' | Inr (dhost, dport) \<Rightarrow> dport))
                 else sni)"
    and "policy target"
  shows "handleHTTPS h lib rw raddr dstAddr =
           ([BypassContains target True, LogDebug (''bypass: '' @ target)], None)"
  using assms(1,4) by (simp add: handleHTTPS_decoded[OF assms(2,3)] bypass_def)

lemma Handle_resolved:
  assumes "checkRateLimit h (RemoteAddr c)"
    and "(if tproxy h then Ret (Some (LocalAddr c), None) else getOriginalDstAddr lib cmd c)
           = Ret (Some dstAddr, None)"
  shows "Handle h lib cmd c =
           (LogInfo (String (RemoteAddr c) @ '' <> '' @ String (LocalAddr c))
              # fst (dispatch h lib c dstAddr)
              @ [LogInfo (String (RemoteAddr c) @ '' >< '' @ String (LocalAddr c)), ConnClose],
            Returned (snd (dispatch h lib c dstAddr)))"
  using assms by (simp add: Handle_def split: prod.splits)

lemma Handle_dial:
  assumes "RouterDial n a \<in> set (fst (Handle h lib cmd c))"
  shows "\<exists>dstAddr. RouterDial n a \<in> set (fst (dispatch h lib c dstAddr))"
  using assms
  by (auto simp: Handle_def Let_def split: if_splits go.splits option.splits prod.splits)
     (metis fst_conv)+

lemma serverName_first:
  "\<forall>name'. ServerNameExtension name' \<notin> set pre \<Longrightarrow>
   serverName (pre @ ServerNameExtension name # post) = name"
proof (induction pre)
  case Nil
  then show ?case by simp
next
  case (Cons x pre)
  then show ?case by (cases x) auto
qed

text \<open>
  The exchange of \<open>handleHTTP\<close> when nothing fails, for a request whose \<open>Host\<close> is
  example.com: one dial, to example.com:80; one write to the upstream, of the bytes
  that \<open>Request.Write\<close> of the library makes of the parsed request; one response
  read and written back; then both closes. What \<open>Request.Write\<close> writes is the
  library's matter: the handler does not forward the bytes it received.
\<close>

lemma handleHTTP_single_exchange:
  assumes "snd (ReadRequest lib (contents rw)) = Inr req" and "Host lib req = ''example.com''"
    and "Bypass h = None" and "\<not> TraceLevel h"
    and "Dial h ''tcp'' ''example.com:80'' = Inr cc"
    and "Request_Write lib req = (sent, None)"
    and "ReadResponse lib cc req = Inr resp"
    and "Response_Write lib resp = (back, err)"
  shows "handleHTTP h lib rw raddr =
           ([RouterDial ''tcp'' ''example.com:80'',
             LogDebug (String raddr @ '' <-> example.com:80''),
             UpstreamWrite sent,
             ClientWrite back,
             ResponseBodyClose,
             LogDebug (String raddr @ '' >-< example.com:80''),
             UpstreamClose], err)"
proof -
  have "SplitHostPort ''example.com'' = Inl (AddrError ''missing port in address'' ''example.com'')"
    by (simp add: SplitHostPort_def LastIndexByte_def)
  then show ?thesis
    using assms by (simp add: handleHTTP_def bypass_def JoinHostPort_def Let_def)
qed

lemma serverName_absent: "\<forall>name. ServerNameExtension name \<notin> set exts \<Longrightarrow> serverName exts = ''''"
  by (induction exts rule: serverName.induct) auto

lemma LocalToRemote_command_failure:
  assumes "CHR '':'' \<in> set r"
  shows "LocalToRemote (Inl err) r = Panic (PanicErr err)"
proof -
  from Split_key[OF assms] obtain x y rest where "Split r CHR '':'' = x # y # rest" by blast
  then show ?thesis by (simp add: LocalToRemote_def PfctlLookup_def)
qed

lemmas example_defs =
  example_library_def example_handler_def example_conn_def example_table_def
  Handle_def dispatch_def sniff_def probeTLS_def probeHTTP_def ReadFull_def RecordHeaderLen_def
  Handshake_def Uint16_TLS10 handleHTTP_def handleHTTPS_def relayOpaque_def getServerName_def
  bypass_def checkRateLimit_def getOriginalDstAddr_def LocalToRemote_def PfctlLookup_def
  SplitHostPort_def split_tail_def LastIndexByte_def JoinHostPort_def io_EOF_def

section \<open>The state-query command fails\<close>

text \<open>
  Claim C1 says that a failure of the state-query command is an error of the one
  connection, which the handler logs before it closes the connection and returns. In
  state-table mode \<open>PfctlLookup\<close> panics with the error of the command instead:
  \<open>Handle\<close> logs no error and does not return; its deferred calls run (the closing
  log line, \<open>conn.Close\<close>) and the panic goes on to the caller of \<open>Handle\<close>.
\<close>

theorem Handle_command_failure_panics:
  assumes "checkRateLimit h (RemoteAddr c)" and "\<not> tproxy h"
    and "CHR '':'' \<in> set (String (RemoteAddr c))"
  shows "Handle h lib (Inl err) c =
           ([LogInfo (String (RemoteAddr c) @ '' <> '' @ String (LocalAddr c)),
             LogInfo (String (RemoteAddr c) @ '' >< '' @ String (LocalAddr c)),
             ConnClose],
            Panicked (PanicErr err))"
  using assms
  by (simp add: Handle_def getOriginalDstAddr_def LocalToRemote_command_failure)

theorem Handle_command_failure_panics_witness:
  "Handle (example_handler False) example_library (Inl (Error ''exit status 1''))
       (example_conn [0x47, 0x45, 0x54, 0x20, 0x2F])
     = ([LogInfo ''192.168.1.13:57474 <> 10.0.0.1:80'',
         LogInfo ''192.168.1.13:57474 >< 10.0.0.1:80'',
         ConnClose],
        Panicked (PanicErr (Error ''exit status 1'')))"
  using Handle_command_failure_panics
    [of "example_handler False" "example_conn [0x47, 0x45, 0x54, 0x20, 0x2F]"
        example_library "Error ''exit status 1''"]
  by (simp add: example_handler_def example_conn_def checkRateLimit_def)

section \<open>The routing target of the TLS path\<close>

text \<open>
  Claim C8. When the ClientHello is decoded, the handler routes to one address: it
  asks the bypass policy about no other, dials no other, on the network tcp, and
  dials it unless the policy bypasses it. When the ClientHello has no server name
  extension, this address is the original destination as it is. When it has one, let
  \<open>name\<close> be the name of the first: the address is \<open>name\<close> as it is when
  \<open>net.SplitHostPort\<close> finds a port in it; \<open>name\<close> joined with the port of the
  original destination, or with 443 when that destination has no port, when it finds
  none; and the original destination when \<open>name\<close> is empty.
\<close>

theorem handleHTTPS_routing_target:
  assumes "snd (ReadRecord lib (contents rw)) = Inr opaque" and "Decode lib opaque = Inr exts"
  shows
    "let port = (case SplitHostPort (String dstAddr) of Inl e \<Rightarrow> '''' | Inr (dhost, dport) \<Rightarrow> dport);
         evs = fst (handleHTTPS h lib rw raddr dstAddr);
         routed = (\<lambda>target.
            (\<forall>network address. RouterDial network address \<in> set evs \<longrightarrow>
                network = ''tcp'' \<and> address = target)
            \<and> (\<forall>s b. BypassContains s b \<in> set evs \<longrightarrow> s = target)
            \<and> (\<not> (\<exists>policy. Bypass h = Some policy \<and> policy target) \<longrightarrow>
                  RouterDial ''tcp'' target \<in> set evs))
     in ((\<forall>name. ServerNameExtension name \<notin> set exts) \<longrightarrow> routed (String dstAddr))
        \<and> (\<forall>pre name post.
              exts = pre @ ServerNameExtension name # post
              \<and> (\<forall>name'. ServerNameExtension name' \<notin> set pre) \<longrightarrow>
              (name = '''' \<longrightarrow> routed (String dstAddr))
              \<and> (name \<noteq> '''' \<and> \<not> isl (SplitHostPort name) \<longrightarrow> routed name)
              \<and> (name \<noteq> '''' \<and> isl (SplitHostPort name) \<longrightarrow>
                   routed (JoinHostPort name (if port = '''' then ''443'' else port))))"
proof -
  obtain n rcd where rr: "ReadRecord lib (contents rw) = (n, rcd)"
    by (cases "ReadRecord lib (contents rw)")
  with assms have g: "getServerName lib rw = (serverName exts, None, n)"
    by (simp add: getServerName_def)
  define port where
    "port = (case SplitHostPort (String dstAddr) of Inl e \<Rightarrow> '''' | Inr (dhost, dport) \<Rightarrow> dport)"
  define target where
    "target = (if serverName exts = '''' then String dstAddr
               else if isl (SplitHostPort (serverName exts))
                    then JoinHostPort (serverName exts) (if port = '''' then ''443'' else port)
                    else serverName exts)"
  define evs where "evs = fst (handleHTTPS h lib rw raddr dstAddr)"
  define routed where "routed = (\<lambda>target.
            (\<forall>network address. RouterDial network address \<in> set evs \<longrightarrow>
                network = ''tcp'' \<and> address = target)
            \<and> (\<forall>s b. BypassContains s b \<in> set evs \<longrightarrow> s = target)
            \<and> (\<not> (\<exists>policy. Bypass h = Some policy \<and> policy target) \<longrightarrow>
                  RouterDial ''tcp'' target \<in> set evs))"
  have evs_eq: "evs = fst
           (case bypass h target of
              (asked, hit) \<Rightarrow>
                if hit then (asked @ [LogDebug (''bypass: '' @ target)], None)
                else (case Dial h ''tcp'' target of
                        Inl e \<Rightarrow> (asked @ [RouterDial ''tcp'' target, LogError e], Some e)
                      | Inr cc \<Rightarrow>
                          (asked @
                           [RouterDial ''tcp'' target,
                            LogDebug (String raddr @ '' <-> '' @ target),
                            Transport (contents (MultiReader (take n (contents rw)) (advance n rw))) cc,
                            LogDebug (String raddr @ '' >-< '' @ target),
                            UpstreamClose], None)))"
    unfolding evs_def
    by (subst handleHTTPS_decoded[OF g, of target]) (simp_all add: target_def port_def)
  have R: "routed target"
    unfolding routed_def evs_eq
    by (auto simp: bypass_def split: option.splits sum.splits)
  have absent: "(\<forall>name. ServerNameExtension name \<notin> set exts) \<longrightarrow> routed (String dstAddr)"
    using R by (auto simp: target_def serverName_absent)
  have first: "\<forall>pre name post.
              exts = pre @ ServerNameExtension name # post
              \<and> (\<forall>name'. ServerNameExtension name' \<notin> set pre) \<longrightarrow>
              (name = '''' \<longrightarrow> routed (String dstAddr))
              \<and> (name \<noteq> '''' \<and> \<not> isl (SplitHostPort name) \<longrightarrow> routed name)
              \<and> (name \<noteq> '''' \<and> isl (SplitHostPort name) \<longrightarrow>
                   routed (JoinHostPort name (if port = '''' then ''443'' else port)))"
  proof (intro allI impI)
    fix pre name post
    assume "exts = pre @ ServerNameExtension name # post
              \<and> (\<forall>name'. ServerNameExtension name' \<notin> set pre)"
    then have "serverName exts = name" by (simp add: serverName_first)
    with R show "(name = '''' \<longrightarrow> routed (String dstAddr))
              \<and> (name \<noteq> '''' \<and> \<not> isl (SplitHostPort name) \<longrightarrow> routed name)
              \<and> (name \<noteq> '''' \<and> isl (SplitHostPort name) \<longrightarrow>
                   routed (JoinHostPort name (if port = '''' then ''443'' else port)))"
      by (auto simp: target_def)
  qed
  from absent first show ?thesis
    unfolding Let_def routed_def evs_def port_def by (rule conjI)
qed

text \<open>
  C8 on the double, without a bypass policy, for an original destination
  10.0.0.1:80. The name example.org, the first of two names, carries no port and
  gets the port 80; the name other.test:8443 carries its port; and without a server
  name the original destination is dialed.
\<close>

theorem handleHTTPS_routing_target_witness:
  "RouterDial ''tcp'' ''example.org:80''
     \<in> set (fst (handleHTTPS ((example_handler True)\<lparr>Bypass := None\<rparr>) example_library
                  (MultiReader [0x16, 0x03, 0x01, 0x00, 0x01] (Conn [0x01] io_EOF))
                  \<lparr>Network = ''tcp'', String = ''192.168.1.13:57474''\<rparr>
                  \<lparr>Network = ''tcp'', String = ''10.0.0.1:80''\<rparr>))
   \<and> RouterDial ''tcp'' ''other.test:8443''
     \<in> set (fst (handleHTTPS ((example_handler True)\<lparr>Bypass := None\<rparr>) example_library
                  (MultiReader [0x16, 0x03, 0x01, 0x00, 0x01] (Conn [0x02] io_EOF))
                  \<lparr>Network = ''tcp'', String = ''192.168.1.13:57474''\<rparr>
                  \<lparr>Network = ''tcp'', String = ''10.0.0.1:80''\<rparr>))
   \<and> RouterDial ''tcp'' ''10.0.0.1:80''
     \<in> set (fst (handleHTTPS ((example_handler True)\<lparr>Bypass := None\<rparr>) example_library
                  (MultiReader [0x16, 0x03, 0x01, 0x00, 0x01] (Conn [0x03] io_EOF))
                  \<lparr>Network = ''tcp'', String = ''192.168.1.13:57474''\<rparr>
                  \<lparr>Network = ''tcp'', String = ''10.0.0.1:80''\<rparr>))"
proof -
  let ?h = "(example_handler True)\<lparr>Bypass := None\<rparr>"
  let ?raddr = "\<lparr>Network = ''tcp'', String = ''192.168.1.13:57474''\<rparr>"
  let ?dst = "\<lparr>Network = ''tcp'', String = ''10.0.0.1:80''\<rparr>"
  let ?rw1 = "MultiReader [0x16, 0x03, 0x01, 0x00, 0x01] (Conn [0x01] io_EOF)"
  let ?rw2 = "MultiReader [0x16, 0x03, 0x01, 0x00, 0x01] (Conn [0x02] io_EOF)"
  let ?rw3 = "MultiReader [0x16, 0x03, 0x01, 0x00, 0x01] (Conn [0x03] io_EOF)"
  have nb: "Bypass ?h = None" by (simp add: example_handler_def)
  have s1: "SplitHostPort ''example.org'' = Inl (AddrError ''missing port in address'' ''example.org'')"
    by (simp add: SplitHostPort_def LastIndexByte_def)
  have s2: "SplitHostPort ''other.test:8443'' = Inr (''other.test'', ''8443'')"
    by (simp add: SplitHostPort_def LastIndexByte_def split_tail_def)
  have p: "SplitHostPort ''10.0.0.1:80'' = Inr (''10.0.0.1'', ''80'')"
    by (simp add: SplitHostPort_def LastIndexByte_def split_tail_def)
  have r1: "snd (ReadRecord example_library (contents ?rw1)) = Inr [0x01]"
    by (simp add: example_library_def)
  have d1: "Decode example_library [0x01]
      = Inr ([OtherExtension 10] @ ServerNameExtension ''example.org'' # [ServerNameExtension ''second.test''])"
    by (simp add: example_library_def)
  have r2: "snd (ReadRecord example_library (contents ?rw2)) = Inr [0x02]"
    by (simp add: example_library_def)
  have d2: "Decode example_library [0x02] = Inr ([] @ ServerNameExtension ''other.test:8443'' # [])"
    by (simp add: example_library_def)
  have r3: "snd (ReadRecord example_library (contents ?rw3)) = Inr [0x03]"
    by (simp add: example_library_def)
  have d3: "Decode example_library [0x03] = Inr [OtherExtension 10]"
    by (simp add: example_library_def)
  have 1: "RouterDial ''tcp'' ''example.org:80'' \<in> set (fst (handleHTTPS ?h example_library ?rw1 ?raddr ?dst))"
    using handleHTTPS_routing_target [OF r1 d1, of ?dst ?h ?raddr, unfolded Let_def,
        THEN conjunct2, THEN spec, of "[OtherExtension 10]", THEN spec, of "''example.org''",
        THEN spec, of "[ServerNameExtension ''second.test'']"] nb
    by (simp add: s1 p JoinHostPort_def)
  have 2: "RouterDial ''tcp'' ''other.test:8443'' \<in> set (fst (handleHTTPS ?h example_library ?rw2 ?raddr ?dst))"
    using handleHTTPS_routing_target [OF r2 d2, of ?dst ?h ?raddr, unfolded Let_def,
        THEN conjunct2, THEN spec, of "[]", THEN spec, of "''other.test:8443''",
        THEN spec, of "[]"] nb
    by (simp add: s2 p)
  have 3: "RouterDial ''tcp'' ''10.0.0.1:80'' \<in> set (fst (handleHTTPS ?h example_library ?rw3 ?raddr ?dst))"
    using handleHTTPS_routing_target [OF r3 d3, of ?dst ?h ?raddr, unfolded Let_def,
        THEN conjunct1] nb
    by simp
  from 1 2 3 show ?thesis by blast
qed

section \<open>The bypass policy\<close>

text \<open>
  Claim C9. With a bypass policy set, \<open>Handle\<close> never dials an address for which
  the policy reports true. And on each path, when the policy reports true for the
  destination of that path, \<open>Handle\<close> dials nothing at all, returns nil, and the
  last thing it does is to close the connection. The destination is: on the raw
  path (no sniffing, or a stream classified as opaque) the text of the original
  destination; on the HTTP path the request's \<open>Host\<close>, with the port 80 when it has
  none; on the TLS path the routing target of the server name that \<open>getServerName\<close>
  returns.
\<close>

theorem Handle_bypass:
  assumes "Bypass h = Some policy"
  shows
    "let evs = fst (Handle h lib cmd c);
         out = snd (Handle h lib cmd c);
         sniffed = sniff (ReadRequest lib) (Conn (incoming c) (closing c));
         silent = ((\<forall>n a. RouterDial n a \<notin> set evs) \<and> out = Returned None \<and> last evs = ConnClose)
     in (\<forall>n a. RouterDial n a \<in> set evs \<longrightarrow> \<not> policy a)
        \<and> (\<forall>dstAddr.
              checkRateLimit h (RemoteAddr c)
              \<and> (if tproxy h then Ret (Some (LocalAddr c), None) else getOriginalDstAddr lib cmd c)
                   = Ret (Some dstAddr, None) \<longrightarrow>
              ((\<not> sniffing h \<or> is_Opaque sniffed) \<and> policy (String dstAddr) \<longrightarrow> silent)
              \<and> (\<forall>rw req.
                    sniffing h \<and> sniffed = HTTP rw
                    \<and> snd (ReadRequest lib (contents rw)) = Inr req
                    \<and> policy (case SplitHostPort (Host lib req) of
                                 Inl e \<Rightarrow> JoinHostPort (Host lib req) ''80''
                               | Inr hp \<Rightarrow> Host lib req) \<longrightarrow> silent)
              \<and> (\<forall>rw sni k.
                    sniffing h \<and> sniffed = TLS rw
                    \<and> getServerName lib rw = (sni, None, k)
                    \<and> policy
                         (if sni = '''' then String dstAddr
                          else if isl (SplitHostPort sni)
                               then JoinHostPort sni
                                      (if (case SplitHostPort (String dstAddr) of
                                             Inl e \<Rightarrow> '''' | Inr (dhost, dport) \<Rightarrow> dport) = ''''
                                       then ''443''
                                       else (case SplitHostPort (String dstAddr) of
                                               Inl e \<Rightarrow> '''' | Inr (dhost, dport) \<Rightarrow> dport))
                               else sni) \<longrightarrow> silent))"
proof -
  define evs where "evs = fst (Handle h lib cmd c)"
  define out where "out = snd (Handle h lib cmd c)"
  define sniffed where "sniffed = sniff (ReadRequest lib) (Conn (incoming c) (closing c))"
  define silent where
    "silent = ((\<forall>n a. RouterDial n a \<notin> set evs) \<and> out = Returned None \<and> last evs = ConnClose)"
  have never: "\<forall>n a. RouterDial n a \<in> set evs \<longrightarrow> \<not> policy a"
    unfolding evs_def using assms by (blast dest: Handle_dial dispatch_not_bypassed)
  have quiet: "silent"
    if res: "checkRateLimit h (RemoteAddr c)"
      "(if tproxy h then Ret (Some (LocalAddr c), None) else getOriginalDstAddr lib cmd c)
         = Ret (Some dstAddr, None)"
      and d: "snd (dispatch h lib c dstAddr) = None"
        "\<forall>n a. RouterDial n a \<notin> set (fst (dispatch h lib c dstAddr))"
    for dstAddr
    unfolding silent_def evs_def out_def Handle_resolved[OF res] using d by simp
  have paths: "\<forall>dstAddr.
              checkRateLimit h (RemoteAddr c)
              \<and> (if tproxy h then Ret (Some (LocalAddr c), None) else getOriginalDstAddr lib cmd c)
                   = Ret (Some dstAddr, None) \<longrightarrow>
              ((\<not> sniffing h \<or> is_Opaque sniffed) \<and> policy (String dstAddr) \<longrightarrow> silent)
              \<and> (\<forall>rw req.
                    sniffing h \<and> sniffed = HTTP rw
                    \<and> snd (ReadRequest lib (contents rw)) = Inr req
                    \<and> policy (case SplitHostPort (Host lib req) of
                                 Inl e \<Rightarrow> JoinHostPort (Host lib req) ''80''
                               | Inr hp \<Rightarrow> Host lib req) \<longrightarrow> silent)
              \<and> (\<forall>rw sni k.
                    sniffing h \<and> sniffed = TLS rw
                    \<and> getServerName lib rw = (sni, None, k)
                    \<and> policy
                         (if sni = '''' then String dstAddr
                          else if isl (SplitHostPort sni)
                               then JoinHostPort sni
                                      (if (case SplitHostPort (String dstAddr) of
                                             Inl e \<Rightarrow> '''' | Inr (dhost, dport) \<Rightarrow> dport) = ''''
                                       then ''443''
                                       else (case SplitHostPort (String dstAddr) of
                                               Inl e \<Rightarrow> '''' | Inr (dhost, dport) \<Rightarrow> dport))
                               else sni) \<longrightarrow> silent)"
  proof (intro allI impI conjI)
    fix dstAddr
    assume res: "checkRateLimit h (RemoteAddr c)
              \<and> (if tproxy h then Ret (Some (LocalAddr c), None) else getOriginalDstAddr lib cmd c)
                   = Ret (Some dstAddr, None)"
    assume raw: "(\<not> sniffing h \<or> is_Opaque sniffed) \<and> policy (String dstAddr)"
    have "\<exists>rw. dispatch h lib c dstAddr = relayOpaque h rw (RemoteAddr c) dstAddr"
    proof (cases "sniffing h")
      case False
      then show ?thesis by (auto simp: dispatch_def)
    next
      case True
      with raw obtain rw where "sniffed = Opaque rw" by (cases sniffed) auto
      with True show ?thesis by (auto simp: dispatch_def sniffed_def[symmetric])
    qed
    then obtain rw where "dispatch h lib c dstAddr = relayOpaque h rw (RemoteAddr c) dstAddr"
      by blast
    with raw have "snd (dispatch h lib c dstAddr) = None"
        "\<forall>n a. RouterDial n a \<notin> set (fst (dispatch h lib c dstAddr))"
      using relayOpaque_bypassed[OF assms, of dstAddr] by simp_all
    with res show silent using quiet by blast
  next
    fix dstAddr rw req
    assume res: "checkRateLimit h (RemoteAddr c)
              \<and> (if tproxy h then Ret (Some (LocalAddr c), None) else getOriginalDstAddr lib cmd c)
                   = Ret (Some dstAddr, None)"
    assume http: "sniffing h \<and> sniffed = HTTP rw
                    \<and> snd (ReadRequest lib (contents rw)) = Inr req
                    \<and> policy (case SplitHostPort (Host lib req) of
                                 Inl e \<Rightarrow> JoinHostPort (Host lib req) ''80''
                               | Inr hp \<Rightarrow> Host lib req)"
    then have "dispatch h lib c dstAddr = handleHTTP h lib rw (RemoteAddr c)"
      by (simp add: dispatch_def sniffed_def[symmetric])
    with http have "snd (dispatch h lib c dstAddr) = None"
        "\<forall>n a. RouterDial n a \<notin> set (fst (dispatch h lib c dstAddr))"
      using handleHTTP_bypassed[OF assms, of lib rw req "RemoteAddr c"] by simp_all
    with res show silent using quiet by blast
  next
    fix dstAddr rw sni k
    assume res: "checkRateLimit h (RemoteAddr c)
              \<and> (if tproxy h then Ret (Some (LocalAddr c), None) else getOriginalDstAddr lib cmd c)
                   = Ret (Some dstAddr, None)"
    assume tls: "sniffing h \<and> sniffed = TLS rw
                    \<and> getServerName lib rw = (sni, None, k)
                    \<and> policy
                         (if sni = '''' then String dstAddr
                          else if isl (SplitHostPort sni)
                               then JoinHostPort sni
                                      (if (case SplitHostPort (String dstAddr) of
                                             Inl e \<Rightarrow> '''' | Inr (dhost, dport) \<Rightarrow> dport) = ''''
                                       then ''443''
                                       else (case SplitHostPort (String dstAddr) of
                                               Inl e \<Rightarrow> '''' | Inr (dhost, dport) \<Rightarrow> dport))
                               else sni)"
    then have "dispatch h lib c dstAddr = handleHTTPS h lib rw (RemoteAddr c) dstAddr"
      by (simp add: dispatch_def sniffed_def[symmetric])
    with tls have "snd (dispatch h lib c dstAddr) = None"
        "\<forall>n a. RouterDial n a \<notin> set (fst (dispatch h lib c dstAddr))"
      using handleHTTPS_bypassed[OF assms, of lib rw sni k _ dstAddr "RemoteAddr c", OF _ refl]
      by simp_all
    with res show silent using quiet by blast
  qed
  from never paths show ?thesis
    unfolding Let_def silent_def evs_def out_def sniffed_def by (rule conjI)
qed

text \<open>
  C9 on the double, once on each path: bytes that are neither TLS nor HTTP, in
  transparent mode, where the destination is the local address 10.0.0.1:80; the
  request \<open>GET /\<close>, whose host gives example.com:80; and a ClientHello with the name
  example.org, in state-table mode, where the destination 23.205.82.58:443 gives the
  port of example.org:443. A ClientHello with the name other.test:8443, which the
  policy does not bypass, is dialed.
\<close>

theorem Handle_bypass_witness:
  "Handle (example_handler True) example_library (Inr example_table) (example_conn [1, 2, 3, 4, 5, 6])
     = ([LogInfo ''192.168.1.13:57474 <> 10.0.0.1:80'',
         LogDebug ''192.168.1.13:57474 >> 10.0.0.1:80'',
         BypassContains ''10.0.0.1:80'' True,
         LogDebug ''bypass: 10.0.0.1:80'',
         LogInfo ''192.168.1.13:57474 >< 10.0.0.1:80'',
         ConnClose], Returned None)
   \<and> Handle (example_handler True) example_library (Inr example_table)
        (example_conn [0x47, 0x45, 0x54, 0x20, 0x2F])
     = ([LogInfo ''192.168.1.13:57474 <> 10.0.0.1:80'',
         BypassContains ''example.com:80'' True,
         LogDebug ''bypass: example.com:80'',
         LogInfo ''192.168.1.13:57474 >< 10.0.0.1:80'',
         ConnClose], Returned None)
   \<and> Handle (example_handler False) example_library (Inr example_table)
        (example_conn [0x16, 0x03, 0x01, 0x00, 0x01, 0x01])
     = ([LogInfo ''192.168.1.13:57474 <> 10.0.0.1:80'',
         BypassContains ''example.org:443'' True,
         LogDebug ''bypass: example.org:443'',
         LogInfo ''192.168.1.13:57474 >< 10.0.0.1:80'',
         ConnClose], Returned None)
   \<and> RouterDial ''tcp'' ''other.test:8443''
        \<in> set (fst (Handle (example_handler False) example_library (Inr example_table)
                      (example_conn [0x16, 0x03, 0x01, 0x00, 0x01, 0x02])))
   \<and> ''other.test:8443'' \<notin> set [''10.0.0.1:80'', ''example.com:80'', ''example.org:443'']"
proof -
  let ?P = "\<lambda>s. s \<in> set [''10.0.0.1:80'', ''example.com:80'', ''example.org:443'']"
  let ?c1 = "example_conn [1, 2, 3, 4, 5, 6]"
  let ?c2 = "example_conn [0x47, 0x45, 0x54, 0x20, 0x2F]"
  let ?c3 = "example_conn [0x16, 0x03, 0x01, 0x00, 0x01, 0x01]"
  let ?c4 = "example_conn [0x16, 0x03, 0x01, 0x00, 0x01, 0x02]"
  let ?local = "\<lparr>Network = ''tcp'', String = ''10.0.0.1:80''\<rparr>"
  let ?dst = "\<lparr>Network = ''tcp'', String = ''23.205.82.58:443''\<rparr>"
  have b: "Bypass (example_handler t) = Some ?P" for t by (simp add: example_handler_def)
  have s43: "SplitHostPort ''23.205.82.58:443'' = Inr (''23.205.82.58'', ''443'')"
    by (simp add: SplitHostPort_def LastIndexByte_def split_tail_def)
  have sorg: "SplitHostPort ''example.org'' = Inl (AddrError ''missing port in address'' ''example.org'')"
    by (simp add: SplitHostPort_def LastIndexByte_def)
  have scom: "SplitHostPort ''example.com'' = Inl (AddrError ''missing port in address'' ''example.com'')"
    by (simp add: SplitHostPort_def LastIndexByte_def)
  have resolved: "getOriginalDstAddr example_library (Inr example_table) (example_conn bs)
      = Ret (Some ?dst, None)" for bs
    by (simp add: getOriginalDstAddr_def LocalToRemote_def PfctlLookup_def resolver_defs
          example_conn_def example_table_def example_library_def JoinHostPort_def)
  note raw = Handle_bypass [OF b [of True], of example_library "Inr example_table" ?c1,
      unfolded Let_def, THEN conjunct2, rule_format, THEN conjunct1, rule_format,
      where dstAddr = ?local]
  note http = Handle_bypass [OF b [of True], of example_library "Inr example_table" ?c2,
      unfolded Let_def, THEN conjunct2, rule_format, THEN conjunct2, THEN conjunct1, rule_format,
      where dstAddr = ?local
        and rw = "MultiReader [0x47, 0x45, 0x54, 0x20, 0x2F] (MultiReader [] (Conn [] io_EOF))"
        and req = "''example.com''"]
  note tls = Handle_bypass [OF b [of False], of example_library "Inr example_table" ?c3,
      unfolded Let_def, THEN conjunct2, rule_format, THEN conjunct2, THEN conjunct2, rule_format,
      where dstAddr = ?dst
        and rw = "MultiReader [0x16, 0x03, 0x01, 0x00, 0x01] (Conn [0x01] io_EOF)"
        and sni = "''example.org''" and k = 6]
  note dial = Handle_bypass [OF b [of False], of example_library "Inr example_table" ?c4,
      unfolded Let_def, THEN conjunct1, rule_format,
      of "''tcp''" "''other.test:8443''"]
  have o1: "snd (Handle (example_handler True) example_library (Inr example_table) ?c1) = Returned None"
    using raw
    by (simp add: example_handler_def example_conn_def example_library_def checkRateLimit_def
          sniff_def probeTLS_def probeHTTP_def ReadFull_def RecordHeaderLen_def Handshake_def
          Uint16_TLS10)
  have o2: "snd (Handle (example_handler True) example_library (Inr example_table) ?c2) = Returned None"
    using http
    by (simp add: example_handler_def example_conn_def example_library_def checkRateLimit_def
          sniff_def probeTLS_def probeHTTP_def ReadFull_def RecordHeaderLen_def Handshake_def
          Uint16_TLS10 scom JoinHostPort_def)
  have o3: "snd (Handle (example_handler False) example_library (Inr example_table) ?c3) = Returned None"
    using tls resolved [of "[0x16, 0x03, 0x01, 0x00, 0x01, 0x01]"]
    by (simp add: example_handler_def example_conn_def example_library_def checkRateLimit_def
          sniff_def probeTLS_def probeHTTP_def ReadFull_def RecordHeaderLen_def Handshake_def
          Uint16_TLS10 getServerName_def sorg s43 JoinHostPort_def)
  have e1: "fst (Handle (example_handler True) example_library (Inr example_table) ?c1)
      = [LogInfo ''192.168.1.13:57474 <> 10.0.0.1:80'',
         LogDebug ''192.168.1.13:57474 >> 10.0.0.1:80'',
         BypassContains ''10.0.0.1:80'' True,
         LogDebug ''bypass: 10.0.0.1:80'',
         LogInfo ''192.168.1.13:57474 >< 10.0.0.1:80'',
         ConnClose]"
    by (simp add: example_defs Let_def)
  have e2: "fst (Handle (example_handler True) example_library (Inr example_table) ?c2)
      = [LogInfo ''192.168.1.13:57474 <> 10.0.0.1:80'',
         BypassContains ''example.com:80'' True,
         LogDebug ''bypass: example.com:80'',
         LogInfo ''192.168.1.13:57474 >< 10.0.0.1:80'',
         ConnClose]"
    by (simp add: example_defs Let_def)
  have e3: "fst (Handle (example_handler False) example_library (Inr example_table) ?c3)
      = [LogInfo ''192.168.1.13:57474 <> 10.0.0.1:80'',
         BypassContains ''example.org:443'' True,
         LogDebug ''bypass: example.org:443'',
         LogInfo ''192.168.1.13:57474 >< 10.0.0.1:80'',
         ConnClose]"
    by (simp add: example_defs resolver_defs Let_def)
  have e4: "RouterDial ''tcp'' ''other.test:8443''
        \<in> set (fst (Handle (example_handler False) example_library (Inr example_table) ?c4))"
    by (simp add: example_defs resolver_defs Let_def)
  from dial e4 have n4: "''other.test:8443'' \<notin> set [''10.0.0.1:80'', ''example.com:80'', ''example.org:443'']"
    by blast
  from o1 o2 o3 e1 e2 e3 e4 n4 show ?thesis
    by (simp add: prod_eq_iff)
qed

section \<open>A ClientHello that cannot be decoded\<close>

text \<open>
  Claim C10. When \<open>dissector.ReadRecord\<close> or the decoding of the ClientHello fails
  with an error, \<open>handleHTTPS\<close> logs the error and returns it, and does nothing else:
  it neither dials nor relays. A call of \<open>Handle\<close> that takes the TLS path then
  returns this error, after it has closed the connection.
\<close>

theorem handleHTTPS_decode_error:
  assumes "snd (ReadRecord lib (contents rw)) = Inl e
           \<or> (\<exists>opaque. snd (ReadRecord lib (contents rw)) = Inr opaque \<and> Decode lib opaque = Inl e)"
  shows "handleHTTPS h lib rw raddr dstAddr = ([LogError e], Some e)
         \<and> (checkRateLimit h (RemoteAddr c) \<and> sniffing h
              \<and> (if tproxy h then Ret (Some (LocalAddr c), None) else getOriginalDstAddr lib cmd c)
                   = Ret (Some dstAddr, None)
              \<and> sniff (ReadRequest lib) (Conn (incoming c) (closing c)) = TLS rw
            \<longrightarrow> Handle h lib cmd c =
                  ([LogInfo (String (RemoteAddr c) @ '' <> '' @ String (LocalAddr c)),
                    LogError e,
                    LogInfo (String (RemoteAddr c) @ '' >< '' @ String (LocalAddr c)),
                    ConnClose],
                   Returned (Some e)))"
proof -
  obtain n rcd where rr: "ReadRecord lib (contents rw) = (n, rcd)"
    by (cases "ReadRecord lib (contents rw)")
  with assms have "getServerName lib rw = ('''', Some e, n)"
    by (auto simp: getServerName_def)
  then have H: "handleHTTPS h lib rw raddr dstAddr = ([LogError e], Some e)" for raddr
    by (simp add: handleHTTPS_def)
  show ?thesis
  proof (intro conjI impI)
    show "handleHTTPS h lib rw raddr dstAddr = ([LogError e], Some e)" by (rule H)
  next
    assume a: "checkRateLimit h (RemoteAddr c) \<and> sniffing h
              \<and> (if tproxy h then Ret (Some (LocalAddr c), None) else getOriginalDstAddr lib cmd c)
                   = Ret (Some dstAddr, None)
              \<and> sniff (ReadRequest lib) (Conn (incoming c) (closing c)) = TLS rw"
    then have "dispatch h lib c dstAddr = ([LogError e], Some e)"
      by (simp add: dispatch_def H)
    with a show "Handle h lib cmd c =
                  ([LogInfo (String (RemoteAddr c) @ '' <> '' @ String (LocalAddr c)),
                    LogError e,
                    LogInfo (String (RemoteAddr c) @ '' >< '' @ String (LocalAddr c)),
                    ConnClose],
                   Returned (Some e))"
      by (simp add: Handle_def)
  qed
qed

text \<open>
  C10 on the double: a record header that announces an empty payload, which is no
  ClientHello.
\<close>

theorem handleHTTPS_decode_error_witness:
  "Handle (example_handler True) example_library (Inr example_table)
      (example_conn [0x16, 0x03, 0x01, 0x00, 0x00, 0x07])
     = ([LogInfo ''192.168.1.13:57474 <> 10.0.0.1:80'',
         LogError (Error ''invalid client hello''),
         LogInfo ''192.168.1.13:57474 >< 10.0.0.1:80'',
         ConnClose],
        Returned (Some (Error ''invalid client hello'')))"
proof -
  let ?rw = "MultiReader [0x16, 0x03, 0x01, 0x00, 0x00] (Conn [0x07] io_EOF)"
  let ?c = "example_conn [0x16, 0x03, 0x01, 0x00, 0x00, 0x07]"
  have r: "snd (ReadRecord example_library (contents ?rw)) = Inl (Error ''invalid client hello'')
           \<or> (\<exists>opaque. snd (ReadRecord example_library (contents ?rw)) = Inr opaque
                 \<and> Decode example_library opaque = Inl (Error ''invalid client hello''))"
    by (simp add: example_library_def)
  have s: "sniff (ReadRequest example_library) (Conn (incoming ?c) (closing ?c)) = TLS ?rw"
    by (simp add: example_conn_def sniff_def probeTLS_def ReadFull_def RecordHeaderLen_def
          Handshake_def Uint16_TLS10)
  have k: "checkRateLimit (example_handler True) (RemoteAddr ?c)"
    by (simp add: example_handler_def checkRateLimit_def)
  from handleHTTPS_decode_error [OF r,
      of "example_handler True" "RemoteAddr ?c" "LocalAddr ?c" ?c "Inr example_table"] s k
  show ?thesis
    by (simp add: example_handler_def example_conn_def)
qed

end
